theory Spec2Isabelle
  imports Complex_Main "HOL-Library.Word" "HOL-Library.Log_Nat"
begin

section \<open>The compute shader (gameoflife.comp)\<close>

text \<open>
  A \<open>vec4\<close> of the shader is four 32-bit floats. A float is modelled by the real number
  it denotes; on the values the properties below are about (0, 1, the small integers
  0..8 and their products) float arithmetic is exact, so the model and the shader agree
  there. The swizzle \<open>.x\<close> is the selector \<open>vx\<close>.
\<close>

datatype vec4 = Vec4 (vx: real) (vy: real) (vz: real) (vw: real)

text \<open>\<open>pixel *= f\<close> for a float \<open>f\<close>: every component is multiplied.\<close>

definition vec4_times :: "vec4 \<Rightarrow> real \<Rightarrow> vec4" where
  "vec4_times v f = Vec4 (vx v * f) (vy v * f) (vz v * f) (vw v * f)"

text \<open>
  An \<open>image2D\<close> bound with format rgba32f: its size and its texels, addressed by an
  \<open>ivec2\<close> (a pair of signed integers).
\<close>

record image2D =
  img_width :: int
  img_height :: int
  img_texels :: "int \<times> int \<Rightarrow> vec4"

definition in_bounds :: "image2D \<Rightarrow> int \<times> int \<Rightarrow> bool" where
  "in_bounds img p =
     (0 \<le> fst p \<and> fst p < img_width img \<and> 0 \<le> snd p \<and> snd p < img_height img)"

text \<open>
  Modelled from the spec: \<open>imageLoad\<close> and \<open>imageStore\<close> are built-in functions of
  GLSL, not code of the repository. A lookup outside the image returns the fixed dead
  value (all components zero: it never wraps and never fails), and a store outside the
  image is discarded. The border colour that GameOfLife.cpp sets is a sampler parameter
  and plays no part in image loads.
\<close>

definition imageLoad :: "image2D \<Rightarrow> int \<times> int \<Rightarrow> vec4" where
  "imageLoad img p = (if in_bounds img p then img_texels img p else Vec4 0 0 0 0)"

definition imageStore :: "image2D \<Rightarrow> int \<times> int \<Rightarrow> vec4 \<Rightarrow> image2D" where
  "imageStore img p v =
     (if in_bounds img p then img\<lparr>img_texels := (img_texels img)(p := v)\<rparr> else img)"

text \<open>
  The constructor \<open>int(v)\<close> applied to a \<open>vec4\<close> takes the first component and drops
  its fractional part (truncation toward zero); the trailing \<open>.x\<close> of the source is the
  swizzle of that scalar, the scalar itself. The result is a 32-bit integer in the shader;
  it is an unbounded \<open>int\<close> here, which is the same number whenever the sum of the eight
  conversions fits 32 bits (it lies in 0..8 for cell values in [0,1]).
\<close>

definition glsl_int :: "real \<Rightarrow> int" where
  "glsl_int r = (if 0 \<le> r then \<lfloor>r\<rfloor> else \<lceil>r\<rceil>)"

text \<open>Lines 15 to 23 of the shader: the eight additions to \<open>numNeighbours\<close>, in order.\<close>

definition numNeighbours :: "image2D \<Rightarrow> int \<times> int \<Rightarrow> int" where
  "numNeighbours img_input pixel_coords =
     (let x = fst pixel_coords; y = snd pixel_coords in
      0 + glsl_int (vx (imageLoad img_input (x - 1, y - 1)))
        + glsl_int (vx (imageLoad img_input (x, y - 1)))
        + glsl_int (vx (imageLoad img_input (x + 1, y - 1)))
        + glsl_int (vx (imageLoad img_input (x - 1, y)))
        + glsl_int (vx (imageLoad img_input (x + 1, y)))
        + glsl_int (vx (imageLoad img_input (x - 1, y + 1)))
        + glsl_int (vx (imageLoad img_input (x, y + 1)))
        + glsl_int (vx (imageLoad img_input (x + 1, y + 1))))"

text \<open>
  Line 30, the factor of \<open>pixel\<close>:
  \<open>max(1 - abs(numNeighbours - 3), 0) + oldState.x * max(1 - abs(numNeighbours - 2), 0)\<close>.
  Both \<open>max\<close> are integer expressions, converted to float by the mixed arithmetic.
\<close>

definition next_state :: "int \<Rightarrow> real \<Rightarrow> real" where
  "next_state n self =
     real_of_int (max (1 - \<bar>n - 3\<bar>) 0) + self * real_of_int (max (1 - \<bar>n - 2\<bar>) 0)"

text \<open>The pixel that one invocation computes (lines 12 to 30).\<close>

definition new_pixel :: "image2D \<Rightarrow> int \<times> int \<Rightarrow> vec4" where
  "new_pixel img_input pixel_coords =
     (let oldState = imageLoad img_input pixel_coords;
          n = numNeighbours img_input pixel_coords;
          pixel = Vec4 1 1 1 1
      in vec4_times pixel (next_state n (vx oldState)))"

text \<open>
  \<open>main\<close> of the shader, for the invocation with \<open>gl_GlobalInvocationID.xy = pixel_coords\<close>:
  it reads \<open>img_input\<close> and returns \<open>img_output\<close> with the one store of line 33 done.
\<close>

definition gameoflife_comp :: "image2D \<Rightarrow> image2D \<Rightarrow> int \<times> int \<Rightarrow> image2D" where
  "gameoflife_comp img_input img_output pixel_coords =
     imageStore img_output pixel_coords (new_pixel img_input pixel_coords)"

text \<open>
  The rule in the words of the specification, with branches: alive with three live
  neighbours, unchanged with two, dead otherwise.
\<close>

definition reference_rule :: "int \<Rightarrow> real \<Rightarrow> real" where
  "reference_rule n self = (if n = 3 then 1 else if n = 2 then self else 0)"

text \<open>
  The eight neighbour positions of a cell, and the number of live neighbours as the
  specification counts them: the positions on the grid whose cell is alive (1).
\<close>

definition neighbours :: "int \<times> int \<Rightarrow> (int \<times> int) list" where
  "neighbours p =
     (let x = fst p; y = snd p in
      [(x - 1, y - 1), (x, y - 1), (x + 1, y - 1), (x - 1, y),
       (x + 1, y), (x - 1, y + 1), (x, y + 1), (x + 1, y + 1)])"

definition live_neighbours :: "image2D \<Rightarrow> int \<times> int \<Rightarrow> nat" where
  "live_neighbours img p =
     length (filter (\<lambda>q. in_bounds img q \<and> vx (img_texels img q) = 1) (neighbours p))"


definition unit_grid :: "image2D \<Rightarrow> bool" where
  "unit_grid img =
     (\<forall>q. in_bounds img q \<longrightarrow> 0 \<le> vx (img_texels img q) \<and> vx (img_texels img q) \<le> 1)"

section \<open>The host program (GameOfLife.cpp)\<close>

subsection \<open>Constants and global state\<close>

type_synonym GLuint = "32 word"

definition gridWidth :: int where
  "gridWidth = 400"

definition gridHeight :: int where
  "gridHeight = 400"

text \<open>
  What a run does that can be observed from outside: text written to \<open>std::cerr\<close> or
  \<open>stderr\<close>, text written to \<open>std::cout\<close>, and (a ghost event, for stating when
  ticks happen) each call of \<open>simulationTick\<close>.
\<close>

datatype event = Stderr string | Stdout string | Tick

text \<open>
  A program object of the GL: the shader names handed to \<open>glAttachShader\<close> and the
  \<open>GL_LINK_STATUS\<close> of its last link. \<open>loadCompileShader\<close> returns \<open>-1\<close> for a
  shader that could not be loaded or compiled; that name is no shader object, so a
  program it was handed to has no executable for that stage.
\<close>

datatype program = Program (attached: "GLuint list") (link_status: bool)

definition usable :: "program \<Rightarrow> bool" where
  "usable p = (link_status p \<and> attached p \<noteq> [] \<and> - 1 \<notin> set (attached p))"

subsection \<open>Single-precision floats\<close>

text \<open>
  The viewport globals are C++ \<open>float\<close>s, IEEE 754 binary32, and \<open>+=\<close> and \<open>-=\<close>
  round every result to binary32 (to nearest, ties to even). Every finite binary32 is an
  integer multiple of \<open>2^-149\<close>, so \<open>Finite n\<close> stands for the number \<open>n * 2^-149\<close>;
  the sum of two finite floats is again such a multiple and only has to be rounded to 24
  significant bits. \<open>Infinite s\<close> is the infinity of sign \<open>s\<close> (\<open>True\<close>: negative).
  The two zeros are not told apart: no comparison of the program does.
\<close>

datatype float32 = Finite int | Infinite bool | NaN

text \<open>\<open>n / d\<close> rounded to the nearest integer, a tie to the even one (\<open>d\<close> positive).\<close>

definition round_half_even :: "int \<Rightarrow> int \<Rightarrow> int" where
  "round_half_even n d =
     (let q = n div d; r = n mod d in
      if 2 * r < d then q else if d < 2 * r then q + 1 else if even q then q else q + 1)"

text \<open>
  Rounding of the exact value \<open>n * 2^-149\<close> to binary32: the bits below the 24 leading
  ones are rounded away, and a result of magnitude \<open>2^128\<close> or more overflows to
  infinity.
\<close>

definition round32 :: "int \<Rightarrow> float32" where
  "round32 n =
     (let k = nat (bitlen \<bar>n\<bar> - 24); m = round_half_even n (2 ^ k) * 2 ^ k in
      if 2 ^ 277 \<le> \<bar>m\<bar> then Infinite (n < 0) else Finite m)"

fun float32_neg :: "float32 \<Rightarrow> float32" where
  "float32_neg (Finite a) = Finite (- a)"
| "float32_neg (Infinite s) = Infinite (\<not> s)"
| "float32_neg NaN = NaN"

fun float32_add :: "float32 \<Rightarrow> float32 \<Rightarrow> float32" where
  "float32_add (Finite a) (Finite b) = round32 (a + b)"
| "float32_add (Finite a) (Infinite t) = Infinite t"
| "float32_add (Infinite s) (Finite b) = Infinite s"
| "float32_add (Infinite s) (Infinite t) = (if s = t then Infinite s else NaN)"
| "float32_add NaN y = NaN"
| "float32_add x NaN = NaN"

definition float32_sub :: "float32 \<Rightarrow> float32 \<Rightarrow> float32" where
  "float32_sub x y = float32_add x (float32_neg y)"

text \<open>The comparisons \<open><=\<close> and \<open><\<close>; both are false when an operand is a NaN.\<close>

fun float32_le :: "float32 \<Rightarrow> float32 \<Rightarrow> bool" where
  "float32_le (Finite a) (Finite b) = (a \<le> b)"
| "float32_le (Finite a) (Infinite t) = (\<not> t)"
| "float32_le (Infinite s) (Finite b) = s"
| "float32_le (Infinite s) (Infinite t) = (s \<or> \<not> t)"
| "float32_le NaN y = False"
| "float32_le x NaN = False"

fun float32_less :: "float32 \<Rightarrow> float32 \<Rightarrow> bool" where
  "float32_less (Finite a) (Finite b) = (a < b)"
| "float32_less (Finite a) (Infinite t) = (\<not> t)"
| "float32_less (Infinite s) (Finite b) = s"
| "float32_less (Infinite s) (Infinite t) = (s \<and> \<not> t)"
| "float32_less NaN y = False"
| "float32_less x NaN = False"

text \<open>The real number a finite float stands for.\<close>

fun float32_value :: "float32 \<Rightarrow> real option" where
  "float32_value (Finite a) = Some (real_of_int a / 2 ^ 149)"
| "float32_value (Infinite s) = None"
| "float32_value NaN = None"

text \<open>
  The literals of the source: \<open>0\<close> and \<open>1\<close> are exact; \<open>0.01f\<close> is the binary32
  nearest to 1/100, \<open>10737418 * 2^-30\<close> (bits \<open>0x3C23D70A\<close>), and \<open>0.1f\<close> the one
  nearest to 1/10, \<open>13421773 * 2^-27\<close> (bits \<open>0x3DCCCCCD\<close>).
\<close>

definition float_zero :: float32 where
  "float_zero = Finite 0"

definition float_one :: float32 where
  "float_one = Finite (2 ^ 149)"

definition float_0_01 :: float32 where
  "float_0_01 = Finite (10737418 * 2 ^ 119)"

definition float_0_1 :: float32 where
  "float_0_1 = Finite (13421773 * 2 ^ 122)"

text \<open>
  The globals of GameOfLife.cpp. The three GL names \<open>computeProgram\<close>,
  \<open>inputTexture\<close> and \<open>outputTexture\<close> stand for the objects they name; a texture
  that has not been given storage is the empty image. \<open>trace\<close> is the ghost record of
  the events so far.
\<close>

record state =
  currentScale :: float32
  currentXOffset :: float32
  currentYOffset :: float32
  simulationIsRunning :: bool
  computeProgram :: program
  inputTexture :: image2D
  outputTexture :: image2D
  trace :: "event list"

definition no_texture :: image2D where
  "no_texture = \<lparr>img_width = 0, img_height = 0, img_texels = (\<lambda>p. Vec4 0 0 0 0)\<rparr>"

definition initial_globals :: state where
  "initial_globals =
     \<lparr>currentScale = float_one, currentXOffset = float_zero, currentYOffset = float_zero,
      simulationIsRunning = True, computeProgram = Program [] False,
      inputTexture = no_texture, outputTexture = no_texture, trace = []\<rparr>"

subsection \<open>simulationTick\<close>

text \<open>
  Modelled from the spec: \<open>glDispatchCompute\<close> is a function of the GL.
  \<open>glDispatchCompute(x, y, 1)\<close> with a local size of 1 x 1 runs the shader once for every
  \<open>gl_GlobalInvocationID.xy\<close> in [0,x) x [0,y), in no required order. The invocations
  read the image bound to unit 0 and write the one bound to unit 1, two different
  textures, each invocation its own cell; they are run here one after the other, row by
  row, and \<open>dispatch_any_order\<close> below shows that any other order gives the same
  image.
\<close>

definition invocations :: "int \<Rightarrow> int \<Rightarrow> (int \<times> int) list" where
  "invocations num_groups_x num_groups_y =
     concat (map (\<lambda>y. map (\<lambda>x. (x, y)) [0..num_groups_x - 1]) [0..num_groups_y - 1])"

definition dispatch :: "(int \<times> int) list \<Rightarrow> image2D \<Rightarrow> image2D \<Rightarrow> image2D" where
  "dispatch ids img_input img_output =
     fold (\<lambda>pixel_coords out. gameoflife_comp img_input out pixel_coords) ids img_output"

definition glDispatchCompute :: "int \<Rightarrow> int \<Rightarrow> image2D \<Rightarrow> image2D \<Rightarrow> image2D" where
  "glDispatchCompute num_groups_x num_groups_y img_input img_output =
     dispatch (invocations num_groups_x num_groups_y) img_input img_output"

text \<open>
  Modelled from the spec: \<open>glCopyImageSubData\<close> is a function of the GL. As line 155
  calls it (level 0 and origin (0,0,0) on both sides, depth 1) it copies the region
  [0,srcWidth) x [0,srcHeight) of \<open>src\<close> into \<open>dst\<close>, cell for cell; a region that does
  not fit either image is an error of the GL and copies nothing.
\<close>

definition glCopyImageSubData :: "image2D \<Rightarrow> image2D \<Rightarrow> int \<Rightarrow> int \<Rightarrow> image2D" where
  "glCopyImageSubData src dst srcWidth srcHeight =
     (if 0 \<le> srcWidth \<and> 0 \<le> srcHeight \<and>
         srcWidth \<le> img_width src \<and> srcHeight \<le> img_height src \<and>
         srcWidth \<le> img_width dst \<and> srcHeight \<le> img_height dst
      then dst\<lparr>img_texels :=
                 (\<lambda>p. if 0 \<le> fst p \<and> fst p < srcWidth \<and> 0 \<le> snd p \<and> snd p < srcHeight
                      then img_texels src p else img_texels dst p)\<rparr>
      else dst)"

text \<open>
  Lines 143 to 159. \<open>glUseProgram\<close> of a program that is not linked, or that has no
  compute shader, leaves no compute program current and the dispatch is an error that
  runs nothing; the copy is made all the same. The two memory barriers order the GPU's
  work and change no value.
\<close>

definition simulationTick :: "state \<Rightarrow> state" where
  "simulationTick st =
     (let out = (if usable (computeProgram st)
                 then glDispatchCompute gridWidth gridHeight (inputTexture st) (outputTexture st)
                 else outputTexture st);
          inp = glCopyImageSubData out (inputTexture st) gridWidth gridHeight
      in st\<lparr>inputTexture := inp, outputTexture := out, trace := trace st @ [Tick]\<rparr>)"

subsection \<open>key_callback\<close>

text \<open>
  The keys and actions of GLFW that the callback tells apart; \<open>GLFW_KEY_OTHER\<close> is any
  key that matches no \<open>case\<close> of the switch.
\<close>

datatype glfw_key =
  GLFW_KEY_W | GLFW_KEY_S | GLFW_KEY_A | GLFW_KEY_D | GLFW_KEY_SPACE
  | GLFW_KEY_EQUAL | GLFW_KEY_MINUS | GLFW_KEY_T | GLFW_KEY_OTHER

datatype glfw_action = GLFW_RELEASE | GLFW_PRESS | GLFW_REPEAT

text \<open>
  Lines 161 to 204. Every \<open>+=\<close> and \<open>-=\<close> is a binary32 addition or subtraction of
  the constant \<open>0.01f\<close> or \<open>0.1f\<close>; the test \<open>currentScale <= 0.0\<close> compares the float,
  widened without change, with zero.
\<close>

definition key_callback :: "glfw_key \<Rightarrow> glfw_action \<Rightarrow> state \<Rightarrow> state" where
  "key_callback key action st =
     (if action \<noteq> GLFW_PRESS \<and> action \<noteq> GLFW_REPEAT then st
      else
        let st' =
          (case key of
             GLFW_KEY_W \<Rightarrow>
               st\<lparr>currentYOffset := float32_add (currentYOffset st) float_0_01\<rparr>
           | GLFW_KEY_S \<Rightarrow>
               st\<lparr>currentYOffset := float32_sub (currentYOffset st) float_0_01\<rparr>
           | GLFW_KEY_A \<Rightarrow>
               st\<lparr>currentXOffset := float32_sub (currentXOffset st) float_0_01\<rparr>
           | GLFW_KEY_D \<Rightarrow>
               st\<lparr>currentXOffset := float32_add (currentXOffset st) float_0_01\<rparr>
           | GLFW_KEY_SPACE \<Rightarrow> st\<lparr>simulationIsRunning := \<not> simulationIsRunning st\<rparr>
           | GLFW_KEY_EQUAL \<Rightarrow>
               st\<lparr>currentScale := float32_add (currentScale st) float_0_1\<rparr>
           | GLFW_KEY_MINUS \<Rightarrow>
               st\<lparr>currentScale := float32_sub (currentScale st) float_0_1\<rparr>
           | GLFW_KEY_T \<Rightarrow> simulationTick st
           | GLFW_KEY_OTHER \<Rightarrow> st)
        in if float32_le (currentScale st') float_zero
           then st'\<lparr>currentScale := float_0_1\<rparr> else st')"

text \<open>
  \<open>glfwPollEvents\<close> calls the key callback once for every key event that is pending, in
  order.
\<close>

fun glfwPollEvents :: "(glfw_key \<times> glfw_action) list \<Rightarrow> state \<Rightarrow> state" where
  "glfwPollEvents [] st = st"
| "glfwPollEvents ((key, action) # evs) st = glfwPollEvents evs (key_callback key action st)"

subsection \<open>The environment of a run\<close>

text \<open>
  Everything \<open>main\<close> asks of the outside: whether \<open>glfwInit\<close> succeeds, the contents of
  the shader files (\<open>None\<close>: the file cannot be read), the driver's verdict on a shader
  source and on a list of shaders to link (\<open>None\<close>: success; \<open>Some log\<close>: failure with
  that info log), the name \<open>glCreateShader\<close> hands out, the decoded initial image, the
  texels of a texture allocated without data, and for every frame until the window is
  closed the key events that \<open>glfwPollEvents\<close> finds.
\<close>

record stb_image =
  stb_w :: int
  stb_h :: int
  stb_n :: int
  stb_data :: "8 word list"

record env =
  glfwInit_ok :: bool
  file_contents :: "string \<Rightarrow> string option"
  compile_infoLog :: "string \<Rightarrow> string option"
  shader_name :: "string \<Rightarrow> GLuint"
  link_infoLog :: "GLuint list \<Rightarrow> string option"
  image_file :: "stb_image option"
  undefined_texels :: "int \<times> int \<Rightarrow> vec4"
  frames :: "(glfw_key \<times> glfw_action) list list"

subsection \<open>Shaders and programs\<close>

text \<open>
  Lines 70 to 116: the events written and the value returned. \<open>compile_infoLog\<close> is
  the text that \<open>glGetShaderInfoLog\<close> puts into the 512-byte buffer; the \<open>std::endl\<close>
  that ends each message is part of the event, not of its text.
\<close>

definition loadCompileShader :: "env \<Rightarrow> string \<Rightarrow> event list \<times> GLuint" where
  "loadCompileShader e shaderPath =
     (case file_contents e shaderPath of
        None \<Rightarrow> ([Stderr (''Couldn't load '' @ shaderPath)], - 1)
      | Some shaderSource \<Rightarrow>
          (case compile_infoLog e shaderSource of
             Some infoLog \<Rightarrow>
               ([Stderr (''Shader compilation error in '' @ shaderPath @ '' :'' @
                         [CHR 0x0A] @ infoLog)], - 1)
           | None \<Rightarrow> ([], shader_name e shaderPath)))"

text \<open>Lines 118 to 141: a failed link is written to \<open>std::cout\<close> and the program returned.\<close>

definition createLinkProgram :: "env \<Rightarrow> GLuint list \<Rightarrow> event list \<times> program" where
  "createLinkProgram e shaders =
     (case link_infoLog e shaders of
        Some infoLog \<Rightarrow>
          ([Stdout (''Shader link error:'' @ [CHR 0x0A] @ infoLog)], Program shaders False)
      | None \<Rightarrow> ([], Program shaders True))"

subsection \<open>Loading the initial image\<close>

text \<open>
  Modelled from the spec: \<open>stbi_load\<close> and \<open>stbi_set_flip_vertically_on_load\<close> are
  functions of stb_image.h, which is not among the sources. \<open>image_file\<close> is the file as
  decoded in the standard order (rows from the top, \<open>stb_n\<close> bytes for each pixel);
  \<open>stbi_load\<close> returns no data for a missing or undecodable file and, with the flip
  flag set, the rows in the opposite order.
\<close>

definition flip_vertically :: "stb_image \<Rightarrow> stb_image" where
  "flip_vertically im =
     (let stride = nat (stb_w im * stb_n im); h = nat (stb_h im) in
      im\<lparr>stb_data :=
           map (\<lambda>i. stb_data im ! ((h - 1 - i div stride) * stride + i mod stride))
               [0..<length (stb_data im)]\<rparr>)"

definition stbi_load :: "bool \<Rightarrow> stb_image option \<Rightarrow> stb_image option" where
  "stbi_load flip file =
     (case file of
        None \<Rightarrow> None
      | Some im \<Rightarrow> Some (if flip then flip_vertically im else im))"

text \<open>
  Modelled from the spec: \<open>glTexImage2D\<close> is a function of the GL. With format
  \<open>GL_RGB\<close>, type \<open>GL_UNSIGNED_BYTE\<close> and internal format \<open>GL_RGBA32F\<close>, each byte
  \<open>c\<close> becomes the float \<open>c / 255\<close>, with no threshold, and alpha is 1. The first row of
  the data is the row \<open>y = 0\<close> of the texture; rows start at multiples of 4 bytes (the
  default \<open>GL_UNPACK_ALIGNMENT\<close>). With a null pointer the texture gets storage whose
  contents are whatever the driver leaves there.
\<close>

definition unorm8 :: "8 word \<Rightarrow> real" where
  "unorm8 c = real (unat c) / 255"

definition glTexImage2D_rgb :: "int \<Rightarrow> int \<Rightarrow> 8 word list \<Rightarrow> image2D" where
  "glTexImage2D_rgb width height data =
     (let stride = ((3 * nat width + 3) div 4) * 4 in
      \<lparr>img_width = width, img_height = height,
       img_texels =
         (\<lambda>p. let i = nat (snd p) * stride + 3 * nat (fst p) in
              Vec4 (unorm8 (data ! i)) (unorm8 (data ! (i + 1))) (unorm8 (data ! (i + 2))) 1)\<rparr>)"

definition glTexImage2D_null :: "int \<Rightarrow> int \<Rightarrow> (int \<times> int \<Rightarrow> vec4) \<Rightarrow> image2D" where
  "glTexImage2D_null width height garbage =
     \<lparr>img_width = width, img_height = height, img_texels = garbage\<rparr>"

subsection \<open>main\<close>

text \<open>\<open>%d\<close> of \<open>fprintf\<close>: an integer in decimal.\<close>

fun show_nat :: "nat \<Rightarrow> string" where
  "show_nat n =
     (if n < 10 then [char_of (48 + n)]
      else show_nat (n div 10) @ [char_of (48 + n mod 10)])"

declare show_nat.simps [simp del]

definition show_int :: "int \<Rightarrow> string" where
  "show_int i = (if i < 0 then CHR ''-'' # show_nat (nat (- i)) else show_nat (nat i))"

text \<open>
  Lines 206 to 326, up to the frame loop: either \<open>main\<close> returns early (\<open>Inl\<close>, with the
  exit code and the globals at that point), or the loop is entered with the state built.
  Window creation, the vertex buffer and the texture parameters change nothing the kernel
  or the callback reads and are left out.
\<close>

definition initialise :: "env \<Rightarrow> (int \<times> state) + state" where
  "initialise e =
     (if \<not> glfwInit_ok e
      then Inl (- 1, initial_globals\<lparr>trace := [Stderr ''Failed to initalize GLFW!'']\<rparr>)
      else
        let (ev1, quadVertexShader) = loadCompileShader e ''quad.vert'';
            (ev2, quadFragmentShader) = loadCompileShader e ''quad.frag'';
            (ev3, computeShader) = loadCompileShader e ''gameoflife.comp'';
            (ev4, renderProgram) = createLinkProgram e [quadVertexShader, quadFragmentShader];
            (ev5, linked) = createLinkProgram e [computeShader];
            st = initial_globals\<lparr>computeProgram := linked,
                                 trace := ev1 @ ev2 @ ev3 @ ev4 @ ev5\<rparr>
        in case stbi_load True (image_file e) of
             None \<Rightarrow>
               Inl (1, st\<lparr>trace := trace st @ [Stderr ''Could not read the inital setup!'']\<rparr>)
           | Some im \<Rightarrow>
               if stb_w im \<noteq> gridWidth \<or> stb_h im \<noteq> gridHeight \<or> stb_n im \<noteq> 3
               then Inl (1, st\<lparr>trace := trace st @
                       [Stderr ''Inital setup image has the wrong dimensions!'',
                        Stderr (''Expected '' @ show_int gridWidth @ '' x '' @
                                show_int gridHeight @ '' x 3, got '' @ show_int (stb_w im) @
                                '' x '' @ show_int (stb_h im) @ '' x '' @
                                show_int (stb_n im))]\<rparr>)
               else Inr (st\<lparr>inputTexture :=
                               glTexImage2D_rgb gridWidth gridHeight (stb_data im),
                             outputTexture :=
                               glTexImage2D_null gridWidth gridHeight (undefined_texels e)\<rparr>))"

text \<open>
  Lines 328 to 362: one round of the loop for every frame the window stays open. Drawing
  reads the state and changes none of it.
\<close>

fun main_loop :: "(glfw_key \<times> glfw_action) list list \<Rightarrow> state \<Rightarrow> state" where
  "main_loop [] st = st"
| "main_loop (evs # rest) st =
     main_loop rest (glfwPollEvents evs (if simulationIsRunning st then simulationTick st else st))"

definition main :: "env \<Rightarrow> int \<times> state" where
  "main e =
     (case initialise e of
        Inl early \<Rightarrow> early
      | Inr st \<Rightarrow> (0, main_loop (frames e) st))"

section \<open>Notions of the specification\<close>

text \<open>
  One generation of a grid in the words of the specification: the kernel applied to
  every cell of the grid, all reading the same previous grid.
\<close>

definition generation :: "image2D \<Rightarrow> image2D" where
  "generation img =
     img\<lparr>img_texels := (\<lambda>p. if in_bounds img p then new_pixel img p else img_texels img p)\<rparr>"

text \<open>
  The state in which \<open>main\<close> enters the loop when the compute program was built: a
  usable program and two textures of the size of the grid.
\<close>

definition grid_ready :: "state \<Rightarrow> bool" where
  "grid_ready st =
     (usable (computeProgram st) \<and>
      img_width (inputTexture st) = gridWidth \<and> img_height (inputTexture st) = gridHeight \<and>
      img_width (outputTexture st) = gridWidth \<and> img_height (outputTexture st) = gridHeight)"

text \<open>
  A grid shows a pattern when its cells (the first channel) are 1 on the pattern and 0
  off it. The blinker about the centre \<open>c\<close> is three cells in a row or in a column.
\<close>

definition shows_pattern :: "image2D \<Rightarrow> (int \<times> int \<Rightarrow> bool) \<Rightarrow> bool" where
  "shows_pattern img alive =
     (\<forall>p. in_bounds img p \<longrightarrow> vx (img_texels img p) = (if alive p then 1 else 0))"

definition horizontal :: "int \<times> int \<Rightarrow> int \<times> int \<Rightarrow> bool" where
  "horizontal c p = (snd p = snd c \<and> \<bar>fst p - fst c\<bar> \<le> 1)"

definition vertical :: "int \<times> int \<Rightarrow> int \<times> int \<Rightarrow> bool" where
  "vertical c p = (fst p = fst c \<and> \<bar>snd p - snd c\<bar> \<le> 1)"

definition corners :: "(int \<times> int) set" where
  "corners =
     {(0, 0), (gridWidth - 1, 0), (0, gridHeight - 1), (gridWidth - 1, gridHeight - 1)}"

text \<open>The keys that pan and the keys that zoom.\<close>

definition pan_keys :: "glfw_key set" where
  "pan_keys = {GLFW_KEY_W, GLFW_KEY_S, GLFW_KEY_A, GLFW_KEY_D}"

definition zoom_keys :: "glfw_key set" where
  "zoom_keys = {GLFW_KEY_EQUAL, GLFW_KEY_MINUS}"

text \<open>
  An event is reported before any tick when it occurs in the trace ahead of the first
  \<open>Tick\<close>.
\<close>

definition reported_before_ticks :: "event \<Rightarrow> event list \<Rightarrow> bool" where
  "reported_before_ticks ev tr = (ev \<in> set (takeWhile (\<lambda>x. x \<noteq> Tick) tr))"

text \<open>
  Channel \<open>ch\<close> of the pixel in column \<open>col\<close> and row \<open>row\<close> of the decoded file, rows
  counted from the top.
\<close>

definition file_channel :: "stb_image \<Rightarrow> int \<Rightarrow> int \<Rightarrow> nat \<Rightarrow> 8 word" where
  "file_channel im col row ch =
     stb_data im ! (nat ((row * stb_w im + col) * stb_n im) + ch)"

text \<open>
  What lines 229 to 236 of \<open>main\<close> write while the shaders are compiled and the two
  programs linked, and the compute program they leave.
\<close>

definition startup_events :: "env \<Rightarrow> event list" where
  "startup_events e =
     fst (loadCompileShader e ''quad.vert'') @ fst (loadCompileShader e ''quad.frag'') @
     fst (loadCompileShader e ''gameoflife.comp'') @
     fst (createLinkProgram e [snd (loadCompileShader e ''quad.vert''),
                               snd (loadCompileShader e ''quad.frag'')]) @
     fst (createLinkProgram e [snd (loadCompileShader e ''gameoflife.comp'')])"

definition built_program :: "env \<Rightarrow> program" where
  "built_program e = snd (createLinkProgram e [snd (loadCompileShader e ''gameoflife.comp'')])"

section \<open>Concrete grids and runs\<close>


text \<open>A 3 x 3 grid with one live cell and one half-grey cell.\<close>

definition grey_grid :: image2D where
  "grey_grid =
     \<lparr>img_width = 3, img_height = 3,
      img_texels = (\<lambda>p. if p = (0, 0) then Vec4 1 1 1 1
                        else if p = (1, 0) then Vec4 (1 / 2) (1 / 2) (1 / 2) 1
                        else Vec4 0 0 0 1)\<rparr>"

text \<open>
  Two states as \<open>main\<close> builds them: a blinker in the middle of the grid, and a single
  live cell in the corner (0,0). Dead cells are black pixels, with the alpha of 1 that
  the loader gives them.
\<close>

definition blinker_state :: state where
  "blinker_state =
     initial_globals
       \<lparr>computeProgram := Program [1] True,
        inputTexture :=
          \<lparr>img_width = gridWidth, img_height = gridHeight,
           img_texels = (\<lambda>p. if horizontal (200, 200) p then Vec4 1 1 1 1 else Vec4 0 0 0 1)\<rparr>,
        outputTexture :=
          \<lparr>img_width = gridWidth, img_height = gridHeight,
           img_texels = (\<lambda>p. Vec4 0 0 0 0)\<rparr>\<rparr>"

definition corner_state :: state where
  "corner_state =
     initial_globals
       \<lparr>computeProgram := Program [1] True,
        inputTexture :=
          \<lparr>img_width = gridWidth, img_height = gridHeight,
           img_texels = (\<lambda>p. if p = (0, 0) then Vec4 1 1 1 1 else Vec4 0 0 0 1)\<rparr>,
        outputTexture :=
          \<lparr>img_width = gridWidth, img_height = gridHeight,
           img_texels = (\<lambda>p. Vec4 0 0 0 0)\<rparr>\<rparr>"

text \<open>
  A decoded image of the right size whose bytes grow from the top row down (row \<open>r\<close>
  holds the byte \<open>r div 2\<close> in every channel), one that is too narrow, and three
  environments: one where everything succeeds and the window closes at once, one where
  the compute shader does not compile (and so does not link) and the window stays open
  for one frame, and one whose image is too narrow.
\<close>

definition shaded_image :: stb_image where
  "shaded_image =
     \<lparr>stb_w = 400, stb_h = 400, stb_n = 3,
      stb_data = map (\<lambda>i. of_nat (i div 2400)) [0..<480000]\<rparr>"

definition narrow_image :: stb_image where
  "narrow_image = \<lparr>stb_w = 399, stb_h = 400, stb_n = 3, stb_data = replicate 478800 0\<rparr>"

definition good_env :: env where
  "good_env =
     \<lparr>glfwInit_ok = True,
      file_contents = (\<lambda>path. Some (''// '' @ path)),
      compile_infoLog = (\<lambda>source. None),
      shader_name =
        (\<lambda>path. if path = ''quad.vert'' then 1 else if path = ''quad.frag'' then 2 else 3),
      link_infoLog = (\<lambda>shaders. None),
      image_file = Some shaded_image,
      undefined_texels = (\<lambda>p. Vec4 0 0 0 0),
      frames = []\<rparr>"

definition broken_shader_env :: env where
  "broken_shader_env =
     good_env
       \<lparr>compile_infoLog :=
          (\<lambda>source. if source = ''// gameoflife.comp''
                     then Some ''0(30) : error C1008: undefined variable''
                     else None),
        link_infoLog :=
          (\<lambda>shaders. if - 1 \<in> set shaders then Some ''no shader objects attached'' else None),
        frames := [[]]\<rparr>"

definition narrow_env :: env where
  "narrow_env = good_env\<lparr>image_file := Some narrow_image, frames := [[]]\<rparr>"

section \<open>Properties of the transition kernel\<close>

lemma next_state_three: "next_state 3 self = 1"
  by (simp add: next_state_def)

lemma next_state_two: "next_state 2 self = self"
  by (simp add: next_state_def)

lemma next_state_other: "n \<noteq> 3 \<Longrightarrow> n \<noteq> 2 \<Longrightarrow> next_state n self = 0"
  by (simp add: next_state_def max_def)

subsection \<open>The closed form and the branching rule\<close>

text \<open>
  C2: for \<open>self\<close> 0 or 1 and a neighbour count \<open>n\<close> from 0 to 8, the branchless
  closed form of line 30 equals the branching rule of the specification: it is 1 when
  \<open>n = 3\<close>, \<open>self\<close> when \<open>n = 2\<close>, and 0 for every other \<open>n\<close>.
\<close>

theorem closed_form_refines_rule:
  "self \<in> {0, 1} \<Longrightarrow> n \<in> {0..8} \<Longrightarrow>
   next_state n self = reference_rule n self \<and>
   (n = 3 \<longrightarrow> next_state n self = 1) \<and>
   (n = 2 \<longrightarrow> next_state n self = self) \<and>
   (n \<noteq> 3 \<and> n \<noteq> 2 \<longrightarrow> next_state n self = 0)"
  by (simp add: reference_rule_def next_state_three next_state_two next_state_other)

theorem closed_form_refines_rule_witness:
  "next_state 2 1 = reference_rule 2 1 \<and> next_state 2 1 = 1"
  using closed_form_refines_rule [of 1 2] by simp

subsection \<open>Counting neighbours\<close>

lemma glsl_int_unit:
  "0 \<le> r \<Longrightarrow> r \<le> 1 \<Longrightarrow> glsl_int r = (if r = 1 then 1 else 0)"
  by (auto simp: glsl_int_def floor_eq_iff)

lemma glsl_int_zero: "glsl_int 0 = 0"
  by (simp add: glsl_int_def)

lemma contribution_unit:
  assumes "unit_grid img"
  shows "glsl_int (vx (imageLoad img q)) =
         (if in_bounds img q \<and> vx (img_texels img q) = 1 then 1 else 0)"
proof (cases "in_bounds img q")
  case True
  with assms have "0 \<le> vx (img_texels img q)" "vx (img_texels img q) \<le> 1"
    unfolding unit_grid_def by blast+
  then show ?thesis using True by (simp add: imageLoad_def glsl_int_unit)
next
  case False
  then show ?thesis by (simp add: imageLoad_def glsl_int_zero)
qed

lemma length_filter_sum:
  "int (length (filter P xs)) = (\<Sum>q\<leftarrow>xs. if P q then 1 else 0)"
  by (induction xs) simp_all

lemma numNeighbours_sum:
  "numNeighbours img p = (\<Sum>q\<leftarrow>neighbours p. glsl_int (vx (imageLoad img q)))"
  by (simp add: numNeighbours_def neighbours_def Let_def)

lemma numNeighbours_live:
  "unit_grid img \<Longrightarrow> numNeighbours img p = int (live_neighbours img p)"
  unfolding numNeighbours_sum live_neighbours_def length_filter_sum
  by (simp add: contribution_unit split del: if_split)

lemma live_neighbours_le: "live_neighbours img p \<le> 8"
proof -
  have "live_neighbours img p \<le> length (neighbours p)"
    unfolding live_neighbours_def by (rule length_filter_le)
  then show ?thesis by (simp add: neighbours_def Let_def)
qed


lemma new_pixel_eq:
  "in_bounds img p \<Longrightarrow>
   new_pixel img p =
     (let v = next_state (numNeighbours img p) (vx (img_texels img p)) in Vec4 v v v v)"
  by (simp add: new_pixel_def Let_def vec4_times_def imageLoad_def)

text \<open>
  C10: the kernel truncates each neighbour's stored value toward zero before summing.
  The count is the sum of the eight truncated values; for every buffer a neighbour whose
  value lies strictly between 0 and 1 adds 0; and when all cell values lie in [0,1] the
  count is the number of neighbours that are exactly 1, an integer from 0 to 8.
\<close>

theorem neighbour_count_truncates:
  "numNeighbours img p = (\<Sum>q\<leftarrow>neighbours p. glsl_int (vx (imageLoad img q))) \<and>
   (0 < vx (imageLoad img q) \<and> vx (imageLoad img q) < 1 \<longrightarrow>
      glsl_int (vx (imageLoad img q)) = 0) \<and>
   (unit_grid img \<longrightarrow>
      numNeighbours img p = int (live_neighbours img p) \<and>
      0 \<le> numNeighbours img p \<and> numNeighbours img p \<le> 8)"
proof -
  have frac: "0 < vx (imageLoad img q) \<and> vx (imageLoad img q) < 1 \<longrightarrow>
      glsl_int (vx (imageLoad img q)) = 0"
    by (simp add: glsl_int_def floor_eq_iff)
  have cnt: "unit_grid img \<longrightarrow> numNeighbours img p = int (live_neighbours img p) \<and>
      0 \<le> numNeighbours img p \<and> numNeighbours img p \<le> 8"
    using live_neighbours_le [of img p] by (simp add: numNeighbours_live)
  show ?thesis using numNeighbours_sum frac cnt by blast
qed

lemma unit_grid_grey: "unit_grid grey_grid"
  by (simp add: unit_grid_def grey_grid_def)

lemma grey_load: "imageLoad grey_grid (1, 0) = Vec4 (1 / 2) (1 / 2) (1 / 2) 1"
  by (simp add: imageLoad_def in_bounds_def grey_grid_def)

theorem neighbour_count_truncates_witness:
  "unit_grid grey_grid \<and> vx (imageLoad grey_grid (1, 0)) = 1 / 2 \<and>
   glsl_int (vx (imageLoad grey_grid (1, 0))) = 0 \<and>
   numNeighbours grey_grid (1, 1) = int (live_neighbours grey_grid (1, 1)) \<and>
   numNeighbours grey_grid (1, 1) = 1"
proof -
  note t = neighbour_count_truncates [of grey_grid "(1, 1)" "(1, 0)"]
  have n: "live_neighbours grey_grid (1, 1) = 1"
    by (simp add: live_neighbours_def neighbours_def in_bounds_def grey_grid_def)
  show ?thesis using t unit_grid_grey n by (simp add: grey_load)
qed

subsection \<open>The truth table\<close>




section \<open>Properties of simulationTick\<close>

subsection \<open>The dispatch\<close>

lemma in_bounds_imageStore [simp]: "in_bounds (imageStore img q v) p = in_bounds img p"
  by (simp add: imageStore_def in_bounds_def)

lemma imageStore_texels:
  "img_texels (imageStore img q v) p =
     (if p = q \<and> in_bounds img q then v else img_texels img p)"
  by (simp add: imageStore_def)

lemma dispatch_size [simp]:
  "img_width (dispatch ids inp out) = img_width out"
  "img_height (dispatch ids inp out) = img_height out"
  by (induction ids arbitrary: out) (simp_all add: dispatch_def gameoflife_comp_def imageStore_def)

lemma in_bounds_dispatch [simp]: "in_bounds (dispatch ids inp out) p = in_bounds out p"
  by (simp add: in_bounds_def)

lemma dispatch_Cons:
  "dispatch (q # ids) inp out = dispatch ids inp (gameoflife_comp inp out q)"
  by (simp add: dispatch_def)

text \<open>
  After a dispatch, a cell of the output that some invocation covered holds the pixel
  computed from the input; every other cell is untouched.
\<close>

lemma dispatch_texels:
  "img_texels (dispatch ids inp out) p =
     (if p \<in> set ids \<and> in_bounds out p then new_pixel inp p else img_texels out p)"
proof (induction ids arbitrary: out)
  case Nil
  show ?case by (simp add: dispatch_def)
next
  case (Cons q ids)
  show ?case
    unfolding dispatch_Cons Cons.IH
    by (auto simp: gameoflife_comp_def imageStore_texels)
qed

lemma set_invocations:
  "set (invocations nx ny) = {p. 0 \<le> fst p \<and> fst p < nx \<and> 0 \<le> snd p \<and> snd p < ny}"
  by (auto simp: invocations_def)

lemma image2D_eqI:
  fixes a b :: image2D
  assumes "img_width a = img_width b" "img_height a = img_height b"
    "\<And>p. img_texels a p = img_texels b p"
  shows "a = b"
proof -
  have "img_texels a = img_texels b" using assms(3) by (rule ext)
  with assms(1,2) show ?thesis by simp
qed

text \<open>The order in which the invocations run does not matter.\<close>

lemma dispatch_any_order:
  "set ids = set ids' \<Longrightarrow> dispatch ids inp out = dispatch ids' inp out"
  by (rule image2D_eqI) (simp_all add: dispatch_texels)

subsection \<open>One tick is one generation\<close>

lemma tick_input:
  assumes "grid_ready st"
  shows "inputTexture (simulationTick st) = generation (inputTexture st)"
proof (rule image2D_eqI)
  show "img_width (inputTexture (simulationTick st)) = img_width (generation (inputTexture st))"
    by (simp add: simulationTick_def Let_def glCopyImageSubData_def generation_def)
  show "img_height (inputTexture (simulationTick st)) = img_height (generation (inputTexture st))"
    by (simp add: simulationTick_def Let_def glCopyImageSubData_def generation_def)
next
  fix p
  from assms show "img_texels (inputTexture (simulationTick st)) p =
      img_texels (generation (inputTexture st)) p"
    by (simp add: simulationTick_def Let_def glCopyImageSubData_def generation_def
        grid_ready_def glDispatchCompute_def dispatch_texels set_invocations in_bounds_def
        gridWidth_def gridHeight_def)
qed

lemma tick_ready: "grid_ready st \<Longrightarrow> grid_ready (simulationTick st)"
  by (simp add: grid_ready_def simulationTick_def Let_def glCopyImageSubData_def
      glDispatchCompute_def)

lemma generation_load:
  "in_bounds img p \<Longrightarrow> imageLoad (generation img) p = new_pixel img p"
  by (simp add: imageLoad_def generation_def in_bounds_def)

text \<open>
  C3: one call of \<open>simulationTick\<close> advances the state by exactly one generation. When
  the dispatch over the whole grid and the copy back are done, the current buffer
  (\<open>inputTexture\<close>) is, cell for cell, the kernel applied to the previous current buffer;
  the state is ready for the next tick, whose reads see this result, so that two ticks
  are two generations.
\<close>

theorem tick_advances_one_generation:
  assumes "grid_ready st"
  shows "inputTexture (simulationTick st) = generation (inputTexture st) \<and>
         (\<forall>p. in_bounds (inputTexture st) p \<longrightarrow>
            imageLoad (inputTexture (simulationTick st)) p = new_pixel (inputTexture st) p) \<and>
         grid_ready (simulationTick st) \<and>
         inputTexture (simulationTick (simulationTick st)) =
           generation (generation (inputTexture st))"
proof -
  have one: "inputTexture (simulationTick st) = generation (inputTexture st)"
    by (rule tick_input [OF assms])
  have ready: "grid_ready (simulationTick st)"
    by (rule tick_ready [OF assms])
  have two: "inputTexture (simulationTick (simulationTick st)) =
      generation (generation (inputTexture st))"
    using tick_input [OF ready] one by simp
  have cells: "\<forall>p. in_bounds (inputTexture st) p \<longrightarrow>
      imageLoad (inputTexture (simulationTick st)) p = new_pixel (inputTexture st) p"
    by (simp add: one generation_load)
  show ?thesis using one cells ready two by blast
qed

lemma grid_ready_blinker: "grid_ready blinker_state"
  by (simp add: grid_ready_def blinker_state_def initial_globals_def usable_def)

theorem tick_advances_one_generation_witness:
  "grid_ready blinker_state \<and>
   inputTexture (simulationTick blinker_state) = generation (inputTexture blinker_state) \<and>
   in_bounds (inputTexture blinker_state) (200, 201) \<and>
   imageLoad (inputTexture (simulationTick blinker_state)) (200, 201) =
     new_pixel (inputTexture blinker_state) (200, 201)"
proof -
  have b: "in_bounds (inputTexture blinker_state) (200, 201)"
    by (simp add: in_bounds_def blinker_state_def initial_globals_def gridWidth_def
        gridHeight_def)
  show ?thesis
    using tick_advances_one_generation [OF grid_ready_blinker] grid_ready_blinker b
    by blast
qed

subsection \<open>Patterns\<close>

lemma contribution_pattern:
  assumes "shows_pattern img alive" and "\<And>q. alive q \<Longrightarrow> in_bounds img q"
  shows "glsl_int (vx (imageLoad img q)) = (if alive q then 1 else 0)"
proof (cases "in_bounds img q")
  case True
  with assms(1) have "vx (img_texels img q) = (if alive q then 1 else 0)"
    unfolding shows_pattern_def by blast
  then show ?thesis using True by (simp add: imageLoad_def glsl_int_def)
next
  case False
  with assms(2) have "\<not> alive q" by blast
  then show ?thesis using False by (simp add: imageLoad_def glsl_int_def)
qed

lemma numNeighbours_pattern:
  assumes "shows_pattern img alive" and "\<And>q. alive q \<Longrightarrow> in_bounds img q"
  shows "numNeighbours img p = (\<Sum>q\<leftarrow>neighbours p. if alive q then 1 else 0)"
  unfolding numNeighbours_sum
  by (simp add: contribution_pattern [OF assms] split del: if_split)

lemma generation_pattern:
  assumes "shows_pattern img alive" and "\<And>q. alive q \<Longrightarrow> in_bounds img q"
    and "\<And>p. next_state (\<Sum>q\<leftarrow>neighbours p. if alive q then 1 else 0)
                 (if alive p then 1 else 0) = (if alive' p then 1 else 0)"
  shows "shows_pattern (generation img) alive'"
  unfolding shows_pattern_def
proof (intro allI impI)
  fix p
  assume "in_bounds (generation img) p"
  then have b: "in_bounds img p" by (simp add: generation_def in_bounds_def)
  from assms(1) b have s: "vx (img_texels img p) = (if alive p then 1 else 0)"
    unfolding shows_pattern_def by blast
  have "vx (img_texels (generation img) p) =
      next_state (numNeighbours img p) (vx (img_texels img p))"
    using b by (simp add: generation_def new_pixel_eq Let_def)
  also have "\<dots> = (if alive' p then 1 else 0)"
    using assms(3) [of p] by (simp only: numNeighbours_pattern [OF assms(1,2)] s)
  finally show "vx (img_texels (generation img) p) = (if alive' p then 1 else 0)" .
qed

subsection \<open>The blinker\<close>

text \<open>
  The arithmetic of the blinker: around a row of three live cells, the rule leaves
  exactly the column of three about the same centre, and the other way round.
\<close>

lemma blinker_row_to_column:
  "next_state (\<Sum>q\<leftarrow>neighbours p. if horizontal c q then 1 else 0)
     (if horizontal c p then 1 else 0) = (if vertical c p then 1 else 0)"
proof -
  obtain x y where p: "p = (x, y)" by (cases p)
  obtain cx cy where c: "c = (cx, cy)" by (cases c)
  consider "y - cy \<le> - 2" | "y = cy - 1" | "y = cy" | "y = cy + 1" | "2 \<le> y - cy"
    by linarith
  then show ?thesis
  proof cases
    case 1
    then show ?thesis
      by (simp add: p c neighbours_def Let_def horizontal_def vertical_def next_state_def)
  next
    case 2
    consider "x - cx \<le> - 3" | "x = cx - 2" | "x = cx - 1" | "x = cx" | "x = cx + 1"
      | "x = cx + 2" | "3 \<le> x - cx"
      by linarith
    then show ?thesis
      by cases
        (simp_all add: 2 p c neighbours_def Let_def horizontal_def vertical_def next_state_def)
  next
    case 3
    consider "x - cx \<le> - 3" | "x = cx - 2" | "x = cx - 1" | "x = cx" | "x = cx + 1"
      | "x = cx + 2" | "3 \<le> x - cx"
      by linarith
    then show ?thesis
      by cases
        (simp_all add: 3 p c neighbours_def Let_def horizontal_def vertical_def next_state_def)
  next
    case 4
    consider "x - cx \<le> - 3" | "x = cx - 2" | "x = cx - 1" | "x = cx" | "x = cx + 1"
      | "x = cx + 2" | "3 \<le> x - cx"
      by linarith
    then show ?thesis
      by cases
        (simp_all add: 4 p c neighbours_def Let_def horizontal_def vertical_def next_state_def)
  next
    case 5
    then show ?thesis
      by (simp add: p c neighbours_def Let_def horizontal_def vertical_def next_state_def)
  qed
qed

lemma blinker_column_to_row:
  "next_state (\<Sum>q\<leftarrow>neighbours p. if vertical c q then 1 else 0)
     (if vertical c p then 1 else 0) = (if horizontal c p then 1 else 0)"
proof -
  obtain x y where p: "p = (x, y)" by (cases p)
  obtain cx cy where c: "c = (cx, cy)" by (cases c)
  consider "x - cx \<le> - 2" | "x = cx - 1" | "x = cx" | "x = cx + 1" | "2 \<le> x - cx"
    by linarith
  then show ?thesis
  proof cases
    case 1
    then show ?thesis
      by (simp add: p c neighbours_def Let_def horizontal_def vertical_def next_state_def)
  next
    case 2
    consider "y - cy \<le> - 3" | "y = cy - 2" | "y = cy - 1" | "y = cy" | "y = cy + 1"
      | "y = cy + 2" | "3 \<le> y - cy"
      by linarith
    then show ?thesis
      by cases
        (simp_all add: 2 p c neighbours_def Let_def horizontal_def vertical_def next_state_def)
  next
    case 3
    consider "y - cy \<le> - 3" | "y = cy - 2" | "y = cy - 1" | "y = cy" | "y = cy + 1"
      | "y = cy + 2" | "3 \<le> y - cy"
      by linarith
    then show ?thesis
      by cases
        (simp_all add: 3 p c neighbours_def Let_def horizontal_def vertical_def next_state_def)
  next
    case 4
    consider "y - cy \<le> - 3" | "y = cy - 2" | "y = cy - 1" | "y = cy" | "y = cy + 1"
      | "y = cy + 2" | "3 \<le> y - cy"
      by linarith
    then show ?thesis
      by cases
        (simp_all add: 4 p c neighbours_def Let_def horizontal_def vertical_def next_state_def)
  next
    case 5
    then show ?thesis
      by (simp add: p c neighbours_def Let_def horizontal_def vertical_def next_state_def)
  qed
qed

lemma generation_size [simp]:
  "img_width (generation img) = img_width img"
  "img_height (generation img) = img_height img"
  by (simp_all add: generation_def)

lemma in_bounds_generation [simp]: "in_bounds (generation img) p = in_bounds img p"
  by (simp add: in_bounds_def)

text \<open>
  C7: a blinker, three live cells in a row of an otherwise empty grid, with the row and
  the column about its centre \<open>c\<close> inside the grid. One tick leaves exactly the column
  of three about \<open>c\<close>, which differs from the row; a second tick gives the row again,
  and every cell of the grid has its original value: the period is exactly 2.
\<close>

theorem blinker_period_two:
  assumes "grid_ready st"
    and "1 \<le> fst c" and "fst c + 1 < gridWidth" and "1 \<le> snd c" and "snd c + 1 < gridHeight"
    and "shows_pattern (inputTexture st) (horizontal c)"
  shows "shows_pattern (inputTexture (simulationTick st)) (vertical c) \<and>
         shows_pattern (inputTexture (simulationTick (simulationTick st))) (horizontal c) \<and>
         (\<forall>p. in_bounds (inputTexture st) p \<longrightarrow>
            vx (img_texels (inputTexture (simulationTick (simulationTick st))) p) =
            vx (img_texels (inputTexture st) p)) \<and>
         vx (img_texels (inputTexture (simulationTick st)) (fst c, snd c + 1)) \<noteq>
         vx (img_texels (inputTexture st) (fst c, snd c + 1))"
proof -
  let ?g0 = "inputTexture st"
  let ?g1 = "inputTexture (simulationTick st)"
  let ?g2 = "inputTexture (simulationTick (simulationTick st))"
  have w: "img_width ?g0 = gridWidth" and h: "img_height ?g0 = gridHeight"
    using assms(1) by (simp_all add: grid_ready_def)
  have g1: "?g1 = generation ?g0"
    by (rule tick_input [OF assms(1)])
  have g2: "?g2 = generation (generation ?g0)"
    using tick_input [OF tick_ready [OF assms(1)]] g1 by simp
  have row_in: "\<And>q. horizontal c q \<Longrightarrow> in_bounds ?g0 q"
    using assms(2-5) by (auto simp: horizontal_def in_bounds_def w h)
  have col_in: "\<And>q. vertical c q \<Longrightarrow> in_bounds (generation ?g0) q"
    using assms(2-5) by (auto simp: vertical_def in_bounds_def w h)
  have one: "shows_pattern (generation ?g0) (vertical c)"
    by (rule generation_pattern [OF assms(6) row_in blinker_row_to_column])
  have two: "shows_pattern (generation (generation ?g0)) (horizontal c)"
    by (rule generation_pattern [OF one col_in blinker_column_to_row])
  have again: "\<forall>p. in_bounds ?g0 p \<longrightarrow> vx (img_texels ?g2 p) = vx (img_texels ?g0 p)"
    using two assms(6) unfolding g2 shows_pattern_def by simp
  have above: "in_bounds ?g0 (fst c, snd c + 1)"
    using assms(2-5) by (simp add: in_bounds_def w h)
  have "vx (img_texels ?g1 (fst c, snd c + 1)) = 1"
    using one above unfolding g1 shows_pattern_def by (simp add: vertical_def)
  moreover have "vx (img_texels ?g0 (fst c, snd c + 1)) = 0"
    using assms(6) above unfolding shows_pattern_def by (simp add: horizontal_def)
  ultimately have differ: "vx (img_texels ?g1 (fst c, snd c + 1)) \<noteq>
      vx (img_texels ?g0 (fst c, snd c + 1))"
    by simp
  show ?thesis using one two again differ unfolding g1 g2 by blast
qed

lemma blinker_shows: "shows_pattern (inputTexture blinker_state) (horizontal (200, 200))"
  by (simp add: shows_pattern_def blinker_state_def initial_globals_def)

theorem blinker_period_two_witness:
  "grid_ready blinker_state \<and>
   shows_pattern (inputTexture blinker_state) (horizontal (200, 200)) \<and>
   shows_pattern (inputTexture (simulationTick blinker_state)) (vertical (200, 200)) \<and>
   shows_pattern (inputTexture (simulationTick (simulationTick blinker_state)))
     (horizontal (200, 200))"
proof -
  have "shows_pattern (inputTexture (simulationTick blinker_state)) (vertical (200, 200)) \<and>
      shows_pattern (inputTexture (simulationTick (simulationTick blinker_state)))
        (horizontal (200, 200))"
    using blinker_period_two [OF grid_ready_blinker _ _ _ _ blinker_shows]
    by (simp add: gridWidth_def gridHeight_def)
  then show ?thesis using grid_ready_blinker blinker_shows by blast
qed

subsection \<open>The boundary\<close>

lemma sum_list_on_grid:
  fixes f :: "'a \<Rightarrow> int"
  assumes "\<And>q. \<not> P q \<Longrightarrow> f q = 0"
  shows "(\<Sum>q\<leftarrow>xs. f q) = (\<Sum>q\<leftarrow>filter P xs. f q)"
  by (induction xs) (simp_all add: assms)

lemma load_off_grid: "\<not> in_bounds img q \<Longrightarrow> glsl_int (vx (imageLoad img q)) = 0"
  by (simp add: imageLoad_def glsl_int_def)

lemma numNeighbours_on_grid:
  "numNeighbours img p =
     (\<Sum>q\<leftarrow>filter (in_bounds img) (neighbours p). glsl_int (vx (img_texels img q)))"
proof -
  have "numNeighbours img p =
      (\<Sum>q\<leftarrow>filter (in_bounds img) (neighbours p). glsl_int (vx (imageLoad img q)))"
    unfolding numNeighbours_sum by (rule sum_list_on_grid) (rule load_off_grid)
  also have "\<dots> =
      (\<Sum>q\<leftarrow>filter (in_bounds img) (neighbours p). glsl_int (vx (img_texels img q)))"
    by (rule arg_cong [where f = sum_list]) (simp add: imageLoad_def)
  finally show ?thesis .
qed

lemma lone_cell_count:
  "(\<Sum>q\<leftarrow>neighbours c. if q = c then 1 else 0) = (0::int)"
  by (cases c) (simp add: neighbours_def Let_def)

lemma lone_cell_dies:
  assumes "in_bounds img c" and "shows_pattern img (\<lambda>q. q = c)"
  shows "numNeighbours img c = 0" and "vx (imageLoad (generation img) c) = 0"
proof -
  have inside: "\<And>q. q = c \<Longrightarrow> in_bounds img q"
    using assms(1) by simp
  show n: "numNeighbours img c = 0"
    using numNeighbours_pattern [OF assms(2) inside, of c] by (simp only: lone_cell_count)
  show "vx (imageLoad (generation img) c) = 0"
    using assms(1) by (simp add: generation_load new_pixel_eq n Let_def next_state_def)
qed

text \<open>
  C4: a neighbour position outside the grid adds the dead value 0 to the count, with no
  wrap-around and no error: the count of any cell is the sum over its neighbour positions
  that lie on the grid. In particular a live corner cell of an otherwise empty grid has
  no live neighbour and is dead after one tick.
\<close>

theorem boundary_neighbours_are_dead:
  "(\<not> in_bounds img q \<longrightarrow> glsl_int (vx (imageLoad img q)) = 0) \<and>
   numNeighbours img p =
     (\<Sum>q\<leftarrow>filter (in_bounds img) (neighbours p). glsl_int (vx (img_texels img q))) \<and>
   (grid_ready st \<and> c \<in> corners \<and> shows_pattern (inputTexture st) (\<lambda>q. q = c) \<longrightarrow>
      numNeighbours (inputTexture st) c = 0 \<and>
      vx (imageLoad (inputTexture (simulationTick st)) c) = 0)"
proof -
  have corner: "numNeighbours (inputTexture st) c = 0 \<and>
      vx (imageLoad (inputTexture (simulationTick st)) c) = 0"
    if r: "grid_ready st" and c: "c \<in> corners"
      and s: "shows_pattern (inputTexture st) (\<lambda>q. q = c)"
  proof -
    have "in_bounds (inputTexture st) c"
      using r c by (auto simp: grid_ready_def corners_def in_bounds_def gridWidth_def
          gridHeight_def)
    then show ?thesis
      using lone_cell_dies [OF _ s] by (simp add: tick_input [OF r])
  qed
  show ?thesis
    using load_off_grid [of img q] numNeighbours_on_grid [of img p] corner by blast
qed

lemma grid_ready_corner: "grid_ready corner_state"
  by (simp add: grid_ready_def corner_state_def initial_globals_def usable_def)

lemma corner_shows: "shows_pattern (inputTexture corner_state) (\<lambda>q. q = (0, 0))"
  by (simp add: shows_pattern_def corner_state_def initial_globals_def)

theorem boundary_neighbours_are_dead_witness:
  "\<not> in_bounds (inputTexture corner_state) (- 1, - 1) \<and>
   glsl_int (vx (imageLoad (inputTexture corner_state) (- 1, - 1))) = 0 \<and>
   grid_ready corner_state \<and> (0, 0) \<in> corners \<and>
   shows_pattern (inputTexture corner_state) (\<lambda>q. q = (0, 0)) \<and>
   vx (imageLoad (inputTexture corner_state) (0, 0)) = 1 \<and>
   numNeighbours (inputTexture corner_state) (0, 0) = 0 \<and>
   vx (imageLoad (inputTexture (simulationTick corner_state)) (0, 0)) = 0"
proof -
  have out: "\<not> in_bounds (inputTexture corner_state) (- 1, - 1)"
    by (simp add: in_bounds_def)
  have c: "(0, 0) \<in> corners"
    by (simp add: corners_def)
  have alive: "vx (imageLoad (inputTexture corner_state) (0, 0)) = 1"
    by (simp add: imageLoad_def in_bounds_def corner_state_def initial_globals_def
        gridWidth_def gridHeight_def)
  show ?thesis
    using boundary_neighbours_are_dead
      [of "inputTexture corner_state" "(- 1, - 1)" "(0, 0)" corner_state "(0, 0)"]
      out c alive grid_ready_corner corner_shows
    by blast
qed

section \<open>Properties of key_callback\<close>

subsection \<open>Rounding to binary32\<close>

lemma round_half_even_error:
  assumes "0 < d"
  shows "2 * \<bar>round_half_even n d * d - n\<bar> \<le> d"
proof -
  define q where "q = n div d"
  define r where "r = n mod d"
  have n: "n = q * d + r" by (simp add: q_def r_def)
  have r: "0 \<le> r" "r < d" using assms by (simp_all add: r_def)
  have up: "(q + 1) * d - n = d - r" by (simp add: n algebra_simps)
  have dn: "q * d - n = - r" by (simp add: n)
  show ?thesis
    unfolding round_half_even_def Let_def q_def [symmetric] r_def [symmetric]
    using r by (auto simp: up dn)
qed

text \<open>A rounded result is within \<open>2^-24\<close> of the exact value, relative to that value.\<close>

lemma round32_error:
  assumes "round32 n = Finite m"
  shows "\<bar>m - n\<bar> * 2 ^ 24 \<le> \<bar>n\<bar>"
proof -
  define k where "k = nat (bitlen \<bar>n\<bar> - 24)"
  have m: "m = round_half_even n (2 ^ k) * 2 ^ k"
    using assms by (simp add: round32_def Let_def k_def split: if_splits)
  have e: "2 * \<bar>m - n\<bar> \<le> 2 ^ k"
    unfolding m by (rule round_half_even_error) simp
  show ?thesis
  proof (cases "k = 0")
    case True
    then have "m = n" by (simp add: m round_half_even_def)
    then show ?thesis by simp
  next
    case False
    then have b: "bitlen \<bar>n\<bar> = int k + 24" by (simp add: k_def)
    then have "0 < \<bar>n\<bar>" using bitlen_eq_zero_iff [of "\<bar>n\<bar>"] by linarith
    from bitlen_bounds [OF this] have "2 ^ nat (bitlen \<bar>n\<bar> - 1) \<le> \<bar>n\<bar>" by simp
    moreover have "nat (bitlen \<bar>n\<bar> - 1) = k + 23" by (simp add: b)
    ultimately have "(2::int) ^ (k + 23) \<le> \<bar>n\<bar>" by simp
    then have "2 ^ k * (2::int) ^ 23 \<le> \<bar>n\<bar>" by (simp add: power_add)
    moreover have "\<bar>m - n\<bar> * 2 ^ 24 = (2 * \<bar>m - n\<bar>) * 2 ^ 23" by simp
    moreover have "(2 * \<bar>m - n\<bar>) * 2 ^ 23 \<le> 2 ^ k * (2::int) ^ 23"
      using e by (simp add: mult_right_mono)
    ultimately show ?thesis by linarith
  qed
qed

lemma round32_positive:
  assumes "0 < n"
  shows "float32_less float_zero (round32 n)"
proof -
  define k where "k = nat (bitlen \<bar>n\<bar> - 24)"
  define m where "m = round_half_even n (2 ^ k) * 2 ^ k"
  have pos: "0 < m"
  proof (cases "k = 0")
    case True
    then show ?thesis using assms by (simp add: m_def round_half_even_def)
  next
    case False
    then have b: "bitlen \<bar>n\<bar> = int k + 24" by (simp add: k_def)
    from bitlen_bounds [of "\<bar>n\<bar>"] assms have "2 ^ nat (bitlen \<bar>n\<bar> - 1) \<le> \<bar>n\<bar>" by simp
    moreover have "nat (bitlen \<bar>n\<bar> - 1) = k + 23" by (simp add: b)
    ultimately have "(2::int) ^ (k + 23) \<le> n"
      using assms by simp
    moreover have "(2::int) ^ k \<le> 2 ^ (k + 23)"
      by (rule power_increasing) simp_all
    ultimately have "(2::int) ^ k \<le> n"
      by linarith
    then have "0 < n div 2 ^ k"
      by (simp add: pos_imp_zdiv_pos_iff)
    then have "1 \<le> n div 2 ^ k"
      by simp
    then have "1 \<le> round_half_even n (2 ^ k)"
      by (auto simp: round_half_even_def Let_def)
    then show ?thesis by (simp add: m_def)
  qed
  have "round32 n = (if 2 ^ 277 \<le> \<bar>m\<bar> then Infinite (n < 0) else Finite m)"
    by (simp only: round32_def Let_def k_def m_def)
  then show ?thesis
    using pos assms by (simp add: float_zero_def)
qed

lemma round32_not_NaN: "round32 n \<noteq> NaN"
  by (simp add: round32_def Let_def)

text \<open>The two constants are the floats nearest to 1/100 and 1/10: within half a unit
  of their last place.\<close>

lemma float_0_01_nearest:
  "float32_value float_0_01 = Some (10737418 / 2 ^ 30)"
  "\<bar>10737418 / 2 ^ 30 - 1 / 100\<bar> < (1 / 2 ^ 31 :: real)"
  by (simp_all add: float_0_01_def)

lemma float_0_1_nearest:
  "float32_value float_0_1 = Some (13421773 / 2 ^ 27)"
  "\<bar>13421773 / 2 ^ 27 - 1 / 10\<bar> < (1 / 2 ^ 28 :: real)"
  by (simp_all add: float_0_1_def)

subsection \<open>Signs\<close>

lemma positive_not_le: "float32_less float_zero x \<Longrightarrow> \<not> float32_le x float_zero"
  by (cases x) (simp_all add: float_zero_def)

lemma not_le_positive:
  "x \<noteq> NaN \<Longrightarrow> \<not> float32_le x float_zero \<Longrightarrow> float32_less float_zero x"
  by (cases x) (simp_all add: float_zero_def)

lemma float_0_1_positive: "float32_less float_zero float_0_1"
  by (simp add: float_zero_def float_0_1_def)

lemma add_tenth_positive:
  assumes "float32_less float_zero x"
  shows "float32_less float_zero (float32_add x float_0_1)"
proof (cases x)
  case (Finite n)
  with assms have "0 < n + 13421773 * 2 ^ 122"
    by (simp add: float_zero_def)
  then show ?thesis
    unfolding Finite float_0_1_def float32_add.simps by (rule round32_positive)
next
  case (Infinite s)
  with assms show ?thesis by (simp add: float_zero_def float_0_1_def)
next
  case NaN
  with assms show ?thesis by (simp add: float_zero_def)
qed

lemma sub_tenth_not_NaN:
  assumes "float32_less float_zero x"
  shows "float32_sub x float_0_1 \<noteq> NaN"
proof (cases x)
  case (Finite n)
  then show ?thesis by (simp add: float32_sub_def float_0_1_def round32_not_NaN)
next
  case (Infinite s)
  then show ?thesis by (simp add: float32_sub_def float_0_1_def)
next
  case NaN
  with assms show ?thesis by (simp add: float_zero_def)
qed

subsection \<open>What each key does\<close>

lemma tick_viewport [simp]:
  "currentScale (simulationTick st) = currentScale st"
  "currentXOffset (simulationTick st) = currentXOffset st"
  "currentYOffset (simulationTick st) = currentYOffset st"
  by (simp_all add: simulationTick_def Let_def)

lemma callback_release [simp]: "key_callback key GLFW_RELEASE st = st"
  by (simp add: key_callback_def)

lemma callback_pan_keys:
  assumes "float32_less float_zero (currentScale st)" and "action \<noteq> GLFW_RELEASE"
  shows "key_callback GLFW_KEY_W action st =
           st\<lparr>currentYOffset := float32_add (currentYOffset st) float_0_01\<rparr>"
    and "key_callback GLFW_KEY_S action st =
           st\<lparr>currentYOffset := float32_sub (currentYOffset st) float_0_01\<rparr>"
    and "key_callback GLFW_KEY_A action st =
           st\<lparr>currentXOffset := float32_sub (currentXOffset st) float_0_01\<rparr>"
    and "key_callback GLFW_KEY_D action st =
           st\<lparr>currentXOffset := float32_add (currentXOffset st) float_0_01\<rparr>"
  using assms positive_not_le [OF assms(1)]
  by (cases action; simp add: key_callback_def)+

lemma callback_other_keys:
  assumes "float32_less float_zero (currentScale st)" and "action \<noteq> GLFW_RELEASE"
  shows "key_callback GLFW_KEY_SPACE action st =
           st\<lparr>simulationIsRunning := \<not> simulationIsRunning st\<rparr>"
    and "key_callback GLFW_KEY_T action st = simulationTick st"
    and "key_callback GLFW_KEY_OTHER action st = st"
  using assms positive_not_le [OF assms(1)]
  by (cases action; simp add: key_callback_def)+

lemma callback_zoom_keys:
  assumes "float32_less float_zero (currentScale st)" and "action \<noteq> GLFW_RELEASE"
  shows "key_callback GLFW_KEY_EQUAL action st =
           st\<lparr>currentScale := float32_add (currentScale st) float_0_1\<rparr>"
    and "key_callback GLFW_KEY_MINUS action st =
           st\<lparr>currentScale :=
                if float32_le (float32_sub (currentScale st) float_0_1) float_zero
                then float_0_1 else float32_sub (currentScale st) float_0_1\<rparr>"
  using assms positive_not_le [OF add_tenth_positive [OF assms(1)]]
  by (cases action; simp add: key_callback_def)+

lemma callback_scale_positive:
  assumes "float32_less float_zero (currentScale st)"
  shows "float32_less float_zero (currentScale (key_callback key action st))"
proof (cases "action = GLFW_RELEASE")
  case True
  then show ?thesis using assms by simp
next
  case False
  note pan = callback_pan_keys [OF assms False]
  note other = callback_other_keys [OF assms False]
  note zoom = callback_zoom_keys [OF assms False]
  show ?thesis
  proof (cases key)
    case GLFW_KEY_EQUAL
    then show ?thesis by (simp add: zoom add_tenth_positive [OF assms])
  next
    case GLFW_KEY_MINUS
    then show ?thesis
      using not_le_positive [OF sub_tenth_not_NaN [OF assms]]
      by (simp add: zoom float_0_1_positive)
  qed (simp_all add: pan other assms)
qed

lemma poll_scale_positive:
  "float32_less float_zero (currentScale st) \<Longrightarrow>
   float32_less float_zero (currentScale (glfwPollEvents evs st))"
proof (induction evs arbitrary: st)
  case Nil
  then show ?case by simp
next
  case (Cons ev evs)
  obtain key action where ev: "ev = (key, action)" by (cases ev)
  show ?case
    unfolding ev glfwPollEvents.simps
    by (rule Cons.IH) (rule callback_scale_positive [OF Cons.prems])
qed

lemma loop_scale_positive:
  "float32_less float_zero (currentScale st) \<Longrightarrow>
   float32_less float_zero (currentScale (main_loop frs st))"
proof (induction frs arbitrary: st)
  case Nil
  then show ?case by simp
next
  case (Cons evs frs)
  have "float32_less float_zero
      (currentScale (if simulationIsRunning st then simulationTick st else st))"
    using Cons.prems by simp
  then have "float32_less float_zero (currentScale
      (glfwPollEvents evs (if simulationIsRunning st then simulationTick st else st)))"
    by (rule poll_scale_positive)
  then show ?case
    unfolding main_loop.simps by (rule Cons.IH)
qed

lemma callback_pan:
  assumes "float32_less float_zero (currentScale st)"
  shows "action \<noteq> GLFW_RELEASE \<and> key \<in> pan_keys \<longrightarrow>
           (currentXOffset (key_callback key action st),
            currentYOffset (key_callback key action st)) \<in>
             {(float32_add (currentXOffset st) float_0_01, currentYOffset st),
              (float32_sub (currentXOffset st) float_0_01, currentYOffset st),
              (currentXOffset st, float32_add (currentYOffset st) float_0_01),
              (currentXOffset st, float32_sub (currentYOffset st) float_0_01)}"
    and "action = GLFW_RELEASE \<or> key \<notin> pan_keys \<longrightarrow>
           currentXOffset (key_callback key action st) = currentXOffset st \<and>
           currentYOffset (key_callback key action st) = currentYOffset st"
proof -
  show "action \<noteq> GLFW_RELEASE \<and> key \<in> pan_keys \<longrightarrow>
           (currentXOffset (key_callback key action st),
            currentYOffset (key_callback key action st)) \<in>
             {(float32_add (currentXOffset st) float_0_01, currentYOffset st),
              (float32_sub (currentXOffset st) float_0_01, currentYOffset st),
              (currentXOffset st, float32_add (currentYOffset st) float_0_01),
              (currentXOffset st, float32_sub (currentYOffset st) float_0_01)}"
    by (cases key) (simp_all add: callback_pan_keys [OF assms] pan_keys_def)
  show "action = GLFW_RELEASE \<or> key \<notin> pan_keys \<longrightarrow>
           currentXOffset (key_callback key action st) = currentXOffset st \<and>
           currentYOffset (key_callback key action st) = currentYOffset st"
  proof (cases "action = GLFW_RELEASE")
    case True
    then show ?thesis by simp
  next
    case False
    then show ?thesis
      by (cases key)
        (simp_all add: callback_other_keys [OF assms False] callback_zoom_keys [OF assms False]
          pan_keys_def)
  qed
qed

lemma callback_zoom:
  assumes "float32_less float_zero (currentScale st)"
  shows "action \<noteq> GLFW_RELEASE \<and> key \<in> zoom_keys \<longrightarrow>
           currentScale (key_callback key action st) =
             float32_add (currentScale st) float_0_1 \<or>
           \<not> float32_le (float32_sub (currentScale st) float_0_1) float_zero \<and>
             currentScale (key_callback key action st) =
               float32_sub (currentScale st) float_0_1 \<or>
           float32_le (float32_sub (currentScale st) float_0_1) float_zero \<and>
             currentScale (key_callback key action st) = float_0_1"
    and "action = GLFW_RELEASE \<or> key \<notin> zoom_keys \<longrightarrow>
           currentScale (key_callback key action st) = currentScale st"
proof -
  show "action \<noteq> GLFW_RELEASE \<and> key \<in> zoom_keys \<longrightarrow>
           currentScale (key_callback key action st) =
             float32_add (currentScale st) float_0_1 \<or>
           \<not> float32_le (float32_sub (currentScale st) float_0_1) float_zero \<and>
             currentScale (key_callback key action st) =
               float32_sub (currentScale st) float_0_1 \<or>
           float32_le (float32_sub (currentScale st) float_0_1) float_zero \<and>
             currentScale (key_callback key action st) = float_0_1"
    by (cases key) (simp_all add: callback_zoom_keys [OF assms] zoom_keys_def)
  show "action = GLFW_RELEASE \<or> key \<notin> zoom_keys \<longrightarrow>
           currentScale (key_callback key action st) = currentScale st"
  proof (cases "action = GLFW_RELEASE")
    case True
    then show ?thesis by simp
  next
    case False
    then show ?thesis
      by (cases key)
        (simp_all add: callback_other_keys [OF assms False] callback_pan_keys [OF assms False]
          zoom_keys_def)
  qed
qed

lemma float32_add_error:
  "float32_add (Finite a) (Finite b) = Finite m \<Longrightarrow> \<bar>m - (a + b)\<bar> * 2 ^ 24 \<le> \<bar>a + b\<bar>"
  using round32_error [of "a + b" m] by simp

subsection \<open>The first key presses, computed\<close>

lemma first_W_press:
  "currentYOffset (key_callback GLFW_KEY_W GLFW_PRESS initial_globals) =
     Finite (10737418 * 2 ^ 119)"
proof -
  have "float32_add float_zero float_0_01 = Finite (10737418 * 2 ^ 119)"
    by code_simp
  then show ?thesis
    by (simp add: key_callback_def initial_globals_def float_one_def float_zero_def)
qed

lemma first_MINUS_press:
  "currentScale (key_callback GLFW_KEY_MINUS GLFW_PRESS initial_globals) =
     Finite (7549747 * 2 ^ 126)"
proof -
  have "float32_sub float_one float_0_1 = Finite (7549747 * 2 ^ 126)"
    by code_simp
  then show ?thesis
    by (simp add: key_callback_def initial_globals_def float_zero_def)
qed

text \<open>
  C9, as the specification states it, fails: the offsets and the scale are binary32
  floats, and each key press rounds. From the initial state (offset 0, scale 1) the first
  press of W leaves the offset \<open>5368709 / 536870912\<close>, which is not 0.01, and the first
  press of MINUS leaves the scale \<open>7549747 / 8388608\<close>, which is neither \<open>1 - 0.1\<close> nor
  1 less the float \<open>0.1f\<close>.
\<close>

theorem viewport_exact_increments_counterexample:
  "float32_value (currentYOffset initial_globals) = Some 0 \<and>
   float32_value (currentYOffset (key_callback GLFW_KEY_W GLFW_PRESS initial_globals)) =
     Some (5368709 / 536870912) \<and>
   (5368709 / 536870912 :: real) \<noteq> 0 + 1 / 100 \<and>
   float32_value (currentScale initial_globals) = Some 1 \<and>
   float32_value float_0_1 = Some (13421773 / 134217728) \<and>
   float32_value (currentScale (key_callback GLFW_KEY_MINUS GLFW_PRESS initial_globals)) =
     Some (7549747 / 8388608) \<and>
   (7549747 / 8388608 :: real) \<noteq> 1 - 1 / 10 \<and>
   (7549747 / 8388608 :: real) \<noteq> 1 - 13421773 / 134217728"
  unfolding first_W_press first_MINUS_press
  by (simp add: initial_globals_def float_zero_def float_one_def float_0_1_def)

text \<open>
  C9, amended: for every sequence of key events the scale stays strictly greater than 0
  (it starts at 1, and a result that is not positive is reset to \<open>0.1f\<close>), through every
  callback, every poll and every frame. From such a state a press or repeat of a pan key
  replaces exactly one offset by the binary32 sum or difference of that offset and
  \<open>0.01f\<close>, and nothing else changes the offsets; a press or repeat of a zoom key
  replaces the scale by the binary32 sum or difference of the scale and \<open>0.1f\<close> (or by
  \<open>0.1f\<close> when the difference is not positive), and nothing else changes the scale. A
  finite binary32 sum differs from the exact sum by at most \<open>2^-24\<close> of it.
\<close>

theorem viewport_float_increments:
  assumes "float32_less float_zero (currentScale st)"
  shows "float32_less float_zero (currentScale (key_callback key action st)) \<and>
         float32_less float_zero (currentScale (glfwPollEvents evs st)) \<and>
         float32_less float_zero (currentScale (main_loop frs st)) \<and>
         (action \<noteq> GLFW_RELEASE \<and> key \<in> pan_keys \<longrightarrow>
            (currentXOffset (key_callback key action st),
             currentYOffset (key_callback key action st)) \<in>
              {(float32_add (currentXOffset st) float_0_01, currentYOffset st),
               (float32_sub (currentXOffset st) float_0_01, currentYOffset st),
               (currentXOffset st, float32_add (currentYOffset st) float_0_01),
               (currentXOffset st, float32_sub (currentYOffset st) float_0_01)}) \<and>
         (action = GLFW_RELEASE \<or> key \<notin> pan_keys \<longrightarrow>
            currentXOffset (key_callback key action st) = currentXOffset st \<and>
            currentYOffset (key_callback key action st) = currentYOffset st) \<and>
         (action \<noteq> GLFW_RELEASE \<and> key \<in> zoom_keys \<longrightarrow>
            currentScale (key_callback key action st) =
              float32_add (currentScale st) float_0_1 \<or>
            \<not> float32_le (float32_sub (currentScale st) float_0_1) float_zero \<and>
              currentScale (key_callback key action st) =
                float32_sub (currentScale st) float_0_1 \<or>
            float32_le (float32_sub (currentScale st) float_0_1) float_zero \<and>
              currentScale (key_callback key action st) = float_0_1) \<and>
         (action = GLFW_RELEASE \<or> key \<notin> zoom_keys \<longrightarrow>
            currentScale (key_callback key action st) = currentScale st) \<and>
         (float32_add (Finite a) (Finite b) = Finite m \<longrightarrow>
            \<bar>m - (a + b)\<bar> * 2 ^ 24 \<le> \<bar>a + b\<bar>)"
  using callback_scale_positive [OF assms] poll_scale_positive [OF assms]
    loop_scale_positive [OF assms] callback_pan [OF assms] callback_zoom [OF assms]
    float32_add_error [of a b m]
  by blast

lemma initial_scale_positive: "float32_less float_zero (currentScale initial_globals)"
  by (simp add: initial_globals_def float_zero_def float_one_def)

theorem viewport_float_increments_witness:
  "float32_less float_zero (currentScale initial_globals) \<and>
   float32_less float_zero
     (currentScale (key_callback GLFW_KEY_MINUS GLFW_REPEAT initial_globals)) \<and>
   float32_less float_zero
     (currentScale
       (glfwPollEvents (replicate 10 (GLFW_KEY_MINUS, GLFW_PRESS)) initial_globals)) \<and>
   currentXOffset (key_callback GLFW_KEY_MINUS GLFW_REPEAT initial_globals) =
     currentXOffset initial_globals \<and>
   currentYOffset (key_callback GLFW_KEY_MINUS GLFW_REPEAT initial_globals) =
     currentYOffset initial_globals"
  using viewport_float_increments [OF initial_scale_positive, of GLFW_KEY_MINUS GLFW_REPEAT
      "replicate 10 (GLFW_KEY_MINUS, GLFW_PRESS)" "[]" 0 0 0] initial_scale_positive
  by (simp add: pan_keys_def)

subsection \<open>Two longer runs, computed\<close>

text \<open>
  Ten presses of MINUS take the scale from 1 below zero, where it is reset to \<open>0.1f\<close>;
  two presses of EQUAL and three of MINUS then leave \<open>2^-26\<close>, which is positive and is
  not reset. At the offset 262144 a press of D changes nothing, the sum rounding back to
  the offset.
\<close>

lemma scale_after_ten_MINUS:
  "currentScale (glfwPollEvents (replicate 10 (GLFW_KEY_MINUS, GLFW_PRESS)) initial_globals) =
     float_0_1"
  by code_simp

lemma scale_after_fifteen_keys:
  "currentScale
     (glfwPollEvents
        (replicate 10 (GLFW_KEY_MINUS, GLFW_PRESS) @ replicate 2 (GLFW_KEY_EQUAL, GLFW_PRESS) @
         replicate 3 (GLFW_KEY_MINUS, GLFW_PRESS)) initial_globals) = Finite (2 ^ 123)"
  "float32_value (Finite (2 ^ 123)) = Some (1 / 2 ^ 26)"
  by code_simp simp

lemma pan_stalls_at_262144:
  "float32_value (Finite (2 ^ 167)) = Some 262144"
  "currentXOffset
     (key_callback GLFW_KEY_D GLFW_PRESS (initial_globals\<lparr>currentXOffset := Finite (2 ^ 167)\<rparr>)) =
     Finite (2 ^ 167)"
  by simp code_simp

section \<open>Properties of main\<close>

subsection \<open>The four ways through the initialisation\<close>

lemma initialise_no_glfw:
  "\<not> glfwInit_ok e \<Longrightarrow>
   initialise e =
     Inl (- 1, initial_globals\<lparr>trace := [Stderr ''Failed to initalize GLFW!'']\<rparr>)"
  by (simp add: initialise_def)

lemma initialise_no_image:
  assumes "glfwInit_ok e" and "image_file e = None"
  shows "initialise e =
     Inl (1, initial_globals
               \<lparr>computeProgram := built_program e,
                trace := startup_events e @ [Stderr ''Could not read the inital setup!'']\<rparr>)"
  using assms
  by (simp add: initialise_def stbi_load_def split_beta Let_def startup_events_def
      built_program_def)

lemma initialise_wrong_size:
  assumes "glfwInit_ok e" and "image_file e = Some im"
    and "stb_w im \<noteq> gridWidth \<or> stb_h im \<noteq> gridHeight \<or> stb_n im \<noteq> 3"
  shows "initialise e =
     Inl (1, initial_globals
               \<lparr>computeProgram := built_program e,
                trace := startup_events e @
                  [Stderr ''Inital setup image has the wrong dimensions!'',
                   Stderr (''Expected '' @ show_int gridWidth @ '' x '' @
                           show_int gridHeight @ '' x 3, got '' @ show_int (stb_w im) @
                           '' x '' @ show_int (stb_h im) @ '' x '' @
                           show_int (stb_n im))]\<rparr>)"
  using assms
  by (simp add: initialise_def stbi_load_def flip_vertically_def split_beta Let_def
      startup_events_def built_program_def)

lemma initialise_ok:
  assumes "glfwInit_ok e" and "image_file e = Some im"
    and "stb_w im = gridWidth" and "stb_h im = gridHeight" and "stb_n im = 3"
  shows "initialise e =
     Inr (initial_globals
            \<lparr>computeProgram := built_program e,
             trace := startup_events e,
             inputTexture :=
               glTexImage2D_rgb gridWidth gridHeight (stb_data (flip_vertically im)),
             outputTexture :=
               glTexImage2D_null gridWidth gridHeight (undefined_texels e)\<rparr>)"
  using assms
  by (simp add: initialise_def stbi_load_def flip_vertically_def split_beta Let_def
      startup_events_def built_program_def)

subsection \<open>The trace\<close>

lemma load_no_tick: "Tick \<notin> set (fst (loadCompileShader e path))"
  by (simp add: loadCompileShader_def split: option.splits)

lemma link_no_tick: "Tick \<notin> set (fst (createLinkProgram e shaders))"
  by (simp add: createLinkProgram_def split: option.splits)

lemma startup_no_tick: "Tick \<notin> set (startup_events e)"
  by (simp add: startup_events_def load_no_tick link_no_tick)

lemma tick_trace: "trace (simulationTick st) = trace st @ [Tick]"
  by (simp add: simulationTick_def Let_def)

lemma callback_trace: "\<exists>later. trace (key_callback key action st) = trace st @ later"
  by (cases key; cases action) (simp_all add: key_callback_def Let_def tick_trace)

lemma poll_trace: "\<exists>later. trace (glfwPollEvents evs st) = trace st @ later"
proof (induction evs arbitrary: st)
  case Nil
  show ?case by simp
next
  case (Cons ev evs)
  obtain key action where ev: "ev = (key, action)" by (cases ev)
  obtain m1 where m1: "trace (key_callback key action st) = trace st @ m1"
    using callback_trace by blast
  obtain m2 where
    "trace (glfwPollEvents evs (key_callback key action st)) =
       trace (key_callback key action st) @ m2"
    using Cons.IH by blast
  then show ?case by (simp add: ev m1)
qed

lemma loop_trace: "\<exists>later. trace (main_loop frs st) = trace st @ later"
proof (induction frs arbitrary: st)
  case Nil
  show ?case by simp
next
  case (Cons evs frs)
  let ?s1 = "if simulationIsRunning st then simulationTick st else st"
  obtain m1 where m1: "trace ?s1 = trace st @ m1"
    by (cases "simulationIsRunning st") (simp_all add: tick_trace)
  obtain m2 where m2: "trace (glfwPollEvents evs ?s1) = trace ?s1 @ m2"
    using poll_trace by blast
  obtain m3 where
    "trace (main_loop frs (glfwPollEvents evs ?s1)) = trace (glfwPollEvents evs ?s1) @ m3"
    using Cons.IH by blast
  then show ?case by (simp add: m1 m2)
qed

lemma reported_in_prefix:
  assumes "ev \<in> set pre" and "Tick \<notin> set pre"
  shows "reported_before_ticks ev (pre @ later)"
proof -
  have "takeWhile (\<lambda>x. x \<noteq> Tick) (pre @ later) = pre @ takeWhile (\<lambda>x. x \<noteq> Tick) later"
    using assms(2) by (intro takeWhile_append2) blast
  then show ?thesis
    using assms(1) by (simp add: reported_before_ticks_def)
qed

text \<open>Whatever happens later, what the set-up wrote stands before every tick.\<close>

lemma main_trace:
  assumes "glfwInit_ok e"
  shows "\<exists>later. trace (snd (main e)) = startup_events e @ later"
proof (cases "image_file e")
  case None
  then show ?thesis
    by (simp add: main_def initialise_no_image [OF assms])
next
  case (Some im)
  show ?thesis
  proof (cases "stb_w im \<noteq> gridWidth \<or> stb_h im \<noteq> gridHeight \<or> stb_n im \<noteq> 3")
    case True
    then show ?thesis
      by (simp add: main_def initialise_wrong_size [OF assms Some])
  next
    case False
    then have ok: "stb_w im = gridWidth" "stb_h im = gridHeight" "stb_n im = 3"
      by simp_all
    obtain st where st: "initialise e = Inr st" and tr: "trace st = startup_events e"
      by (simp add: initialise_ok [OF assms Some ok])
    obtain later where "trace (main_loop (frames e) st) = trace st @ later"
      using loop_trace by blast
    then show ?thesis
      by (simp add: main_def st tr)
  qed
qed

lemma startup_reported:
  assumes "glfwInit_ok e" and "ev \<in> set (startup_events e)"
  shows "reported_before_ticks ev (trace (snd (main e)))"
proof -
  obtain later where "trace (snd (main e)) = startup_events e @ later"
    using main_trace [OF assms(1)] by blast
  then show ?thesis
    using reported_in_prefix [OF assms(2) startup_no_tick] by simp
qed

subsection \<open>Shader failures\<close>

lemma compile_failure_event:
  assumes "file_contents e path = Some source" and "compile_infoLog e source = Some infoLog"
  shows "loadCompileShader e path =
     ([Stderr (''Shader compilation error in '' @ path @ '' :'' @ [CHR 0x0A] @ infoLog)], - 1)"
  using assms by (simp add: loadCompileShader_def)

lemma load_failure_event:
  assumes "file_contents e path = None"
  shows "loadCompileShader e path = ([Stderr (''Couldn't load '' @ path)], - 1)"
  using assms by (simp add: loadCompileShader_def)

lemma link_failure_event:
  assumes "link_infoLog e shaders = Some infoLog"
  shows "createLinkProgram e shaders =
     ([Stdout (''Shader link error:'' @ [CHR 0x0A] @ infoLog)], Program shaders False)"
  using assms by (simp add: createLinkProgram_def)

lemma main_after_initialise:
  "initialise e = Inr st \<Longrightarrow> main e = (0, main_loop (frames e) st)"
  by (simp add: main_def)

lemma shaded_dims:
  "stb_w shaded_image = gridWidth" "stb_h shaded_image = gridHeight" "stb_n shaded_image = 3"
  "length (stb_data shaded_image) = 480000"
  by (simp_all add: shaded_image_def gridWidth_def gridHeight_def)

lemma broken_startup:
  "startup_events broken_shader_env =
     [Stderr (''Shader compilation error in gameoflife.comp :'' @ [CHR 0x0A] @
              ''0(30) : error C1008: undefined variable''),
      Stdout (''Shader link error:'' @ [CHR 0x0A] @ ''no shader objects attached'')]"
  by (simp add: startup_events_def loadCompileShader_def createLinkProgram_def
      broken_shader_env_def good_env_def)

lemma broken_program: "built_program broken_shader_env = Program [- 1] False"
  by (simp add: built_program_def loadCompileShader_def createLinkProgram_def
      broken_shader_env_def good_env_def)

text \<open>
  C5, as the specification states it, fails: \<open>main\<close> never inspects what
  \<open>loadCompileShader\<close> and \<open>createLinkProgram\<close> return. In the run below the compute
  shader does not compile and the program does not link; both failures are written, and
  \<open>main\<close> goes on into the frame loop, calls \<open>simulationTick\<close> and returns 0 when the
  window closes.
\<close>

theorem shader_failure_not_fatal_counterexample:
  "glfwInit_ok broken_shader_env \<and>
   file_contents broken_shader_env ''gameoflife.comp'' = Some ''// gameoflife.comp'' \<and>
   compile_infoLog broken_shader_env ''// gameoflife.comp'' =
     Some ''0(30) : error C1008: undefined variable'' \<and>
   computeProgram (snd (main broken_shader_env)) = Program [- 1] False \<and>
   fst (main broken_shader_env) = 0 \<and>
   trace (snd (main broken_shader_env)) =
     [Stderr (''Shader compilation error in gameoflife.comp :'' @ [CHR 0x0A] @
              ''0(30) : error C1008: undefined variable''),
      Stdout (''Shader link error:'' @ [CHR 0x0A] @ ''no shader objects attached''),
      Tick]"
proof -
  have g: "glfwInit_ok broken_shader_env"
    and i: "image_file broken_shader_env = Some shaded_image"
    and f: "frames broken_shader_env = [[]]"
    by (simp_all add: broken_shader_env_def good_env_def)
  have src: "file_contents broken_shader_env ''gameoflife.comp'' = Some ''// gameoflife.comp''"
    and log: "compile_infoLog broken_shader_env ''// gameoflife.comp'' =
      Some ''0(30) : error C1008: undefined variable''"
    by (simp_all add: broken_shader_env_def good_env_def)
  note init = initialise_ok [OF g i shaded_dims(1-3)]
  have run: "simulationIsRunning initial_globals"
    by (simp add: initial_globals_def)
  have m: "main broken_shader_env =
      (0, simulationTick (initial_globals
            \<lparr>computeProgram := built_program broken_shader_env,
             trace := startup_events broken_shader_env,
             inputTexture :=
               glTexImage2D_rgb gridWidth gridHeight (stb_data (flip_vertically shaded_image)),
             outputTexture :=
               glTexImage2D_null gridWidth gridHeight
                 (undefined_texels broken_shader_env)\<rparr>))"
    by (simp add: main_after_initialise [OF init] f run)
  have p: "computeProgram (snd (main broken_shader_env)) = Program [- 1] False"
    by (simp add: m simulationTick_def Let_def broken_program)
  have t: "trace (snd (main broken_shader_env)) = startup_events broken_shader_env @ [Tick]"
    by (simp add: m tick_trace)
  have c: "fst (main broken_shader_env) = 0"
    by (simp add: m)
  show ?thesis
    using g src log p c t unfolding broken_startup by simp
qed

text \<open>
  C5, amended: if the compute shader cannot be loaded or compiled, or the compute program
  does not link, the failure is reported during start-up, ahead of every simulation
  tick: the message with the driver's info log is in the trace before the first tick,
  and a shader that failed is returned as \<open>-1\<close>.
\<close>

theorem shader_failure_reported:
  assumes "glfwInit_ok e"
  shows "(file_contents e ''gameoflife.comp'' = None \<longrightarrow>
            snd (loadCompileShader e ''gameoflife.comp'') = - 1 \<and>
            reported_before_ticks (Stderr (''Couldn't load '' @ ''gameoflife.comp''))
              (trace (snd (main e)))) \<and>
         (file_contents e ''gameoflife.comp'' = Some source \<and>
          compile_infoLog e source = Some infoLog \<longrightarrow>
            snd (loadCompileShader e ''gameoflife.comp'') = - 1 \<and>
            reported_before_ticks
              (Stderr (''Shader compilation error in '' @ ''gameoflife.comp'' @ '' :'' @
                       [CHR 0x0A] @ infoLog))
              (trace (snd (main e)))) \<and>
         (link_infoLog e [snd (loadCompileShader e ''gameoflife.comp'')] = Some linkLog \<longrightarrow>
            reported_before_ticks (Stdout (''Shader link error:'' @ [CHR 0x0A] @ linkLog))
              (trace (snd (main e))))"
proof -
  have a: "snd (loadCompileShader e ''gameoflife.comp'') = - 1 \<and>
      reported_before_ticks (Stderr (''Couldn't load '' @ ''gameoflife.comp''))
        (trace (snd (main e)))"
    if n: "file_contents e ''gameoflife.comp'' = None"
  proof -
    have "Stderr (''Couldn't load '' @ ''gameoflife.comp'') \<in> set (startup_events e)"
      by (simp add: startup_events_def load_failure_event [OF n])
    then show ?thesis
      using startup_reported [OF assms] by (simp add: load_failure_event [OF n])
  qed
  have b: "snd (loadCompileShader e ''gameoflife.comp'') = - 1 \<and>
      reported_before_ticks
        (Stderr (''Shader compilation error in '' @ ''gameoflife.comp'' @ '' :'' @
                 [CHR 0x0A] @ infoLog))
        (trace (snd (main e)))"
    if s: "file_contents e ''gameoflife.comp'' = Some source"
      and l: "compile_infoLog e source = Some infoLog"
  proof -
    have "Stderr (''Shader compilation error in '' @ ''gameoflife.comp'' @ '' :'' @
                 [CHR 0x0A] @ infoLog) \<in> set (startup_events e)"
      by (simp add: startup_events_def compile_failure_event [OF s l])
    then show ?thesis
      using startup_reported [OF assms] by (simp add: compile_failure_event [OF s l])
  qed
  have c: "reported_before_ticks (Stdout (''Shader link error:'' @ [CHR 0x0A] @ linkLog))
        (trace (snd (main e)))"
    if l: "link_infoLog e [snd (loadCompileShader e ''gameoflife.comp'')] = Some linkLog"
  proof -
    have "Stdout (''Shader link error:'' @ [CHR 0x0A] @ linkLog) \<in> set (startup_events e)"
      by (simp add: startup_events_def link_failure_event [OF l])
    then show ?thesis
      by (rule startup_reported [OF assms])
  qed
  show ?thesis using a b c by blast
qed

theorem shader_failure_reported_witness:
  "glfwInit_ok broken_shader_env \<and>
   snd (loadCompileShader broken_shader_env ''gameoflife.comp'') = - 1 \<and>
   reported_before_ticks
     (Stderr (''Shader compilation error in gameoflife.comp :'' @ [CHR 0x0A] @
              ''0(30) : error C1008: undefined variable''))
     (trace (snd (main broken_shader_env))) \<and>
   reported_before_ticks
     (Stdout (''Shader link error:'' @ [CHR 0x0A] @ ''no shader objects attached''))
     (trace (snd (main broken_shader_env)))"
proof -
  have g: "glfwInit_ok broken_shader_env"
    by (simp add: broken_shader_env_def good_env_def)
  have src: "file_contents broken_shader_env ''gameoflife.comp'' = Some ''// gameoflife.comp''"
    and log: "compile_infoLog broken_shader_env ''// gameoflife.comp'' =
      Some ''0(30) : error C1008: undefined variable''"
    by (simp_all add: broken_shader_env_def good_env_def)
  have sh: "snd (loadCompileShader broken_shader_env ''gameoflife.comp'') = - 1"
    by (simp add: compile_failure_event [OF src log])
  have lk: "link_infoLog broken_shader_env
      [snd (loadCompileShader broken_shader_env ''gameoflife.comp'')] =
      Some ''no shader objects attached''"
    unfolding sh by (simp add: broken_shader_env_def good_env_def)
  show ?thesis
    using shader_failure_reported [OF g, of "''// gameoflife.comp''"
        "''0(30) : error C1008: undefined variable''" "''no shader objects attached''"]
      g src log sh lk
    by simp
qed

subsection \<open>A missing or mis-sized initial image\<close>

lemma main_no_glfw:
  "\<not> glfwInit_ok e \<Longrightarrow>
   main e = (- 1, initial_globals\<lparr>trace := [Stderr ''Failed to initalize GLFW!'']\<rparr>)"
  by (simp add: main_def initialise_no_glfw)

lemma initial_textures:
  "inputTexture initial_globals = no_texture" "outputTexture initial_globals = no_texture"
  by (simp_all add: initial_globals_def)

text \<open>
  C6: if the initial image is missing, or its width, height or channel count differs from
  400 x 400 x 3, the program exits with a non-zero code, no tick has run and no texture
  has been created from the image. Once GLFW is initialised, so that \<open>main\<close> reaches the
  image at all, the exit code is 1 and the error is the last thing reported: a missing
  image by its message, a wrong size by a message followed by the expected and the
  actual dimensions.
\<close>

theorem bad_image_rejected:
  assumes "image_file e = None \<or>
           (\<exists>im. image_file e = Some im \<and>
                 (stb_w im \<noteq> gridWidth \<or> stb_h im \<noteq> gridHeight \<or> stb_n im \<noteq> 3))"
  shows "fst (main e) \<noteq> 0 \<and> Tick \<notin> set (trace (snd (main e))) \<and>
         inputTexture (snd (main e)) = no_texture \<and>
         outputTexture (snd (main e)) = no_texture \<and>
         (glfwInit_ok e \<longrightarrow>
            fst (main e) = 1 \<and>
            (image_file e = None \<longrightarrow>
               last (trace (snd (main e))) = Stderr ''Could not read the inital setup!'') \<and>
            (\<forall>im. image_file e = Some im \<longrightarrow>
               Stderr ''Inital setup image has the wrong dimensions!''
                 \<in> set (trace (snd (main e))) \<and>
               last (trace (snd (main e))) =
                 Stderr (''Expected 400 x 400 x 3, got '' @ show_int (stb_w im) @ '' x '' @
                         show_int (stb_h im) @ '' x '' @ show_int (stb_n im))))"
proof (cases "glfwInit_ok e")
  case False
  then show ?thesis
    by (simp add: main_no_glfw initial_textures)
next
  case True
  show ?thesis
  proof (cases "image_file e")
    case None
    show ?thesis
      by (simp add: main_def initialise_no_image [OF True None] None True startup_no_tick
          initial_textures)
  next
    case (Some im)
    with assms have
      bad: "stb_w im \<noteq> gridWidth \<or> stb_h im \<noteq> gridHeight \<or> stb_n im \<noteq> 3"
      by simp
    have w: "show_int gridWidth = ''400''" and h: "show_int gridHeight = ''400''"
      unfolding gridWidth_def gridHeight_def by code_simp+
    show ?thesis
      by (simp add: main_def initialise_wrong_size [OF True Some bad] Some True
          startup_no_tick initial_textures w h)
  qed
qed

lemma narrow_startup: "startup_events narrow_env = []"
  by (simp add: startup_events_def loadCompileShader_def createLinkProgram_def
      narrow_env_def good_env_def)

theorem bad_image_rejected_witness:
  "image_file narrow_env = Some narrow_image \<and> stb_w narrow_image \<noteq> gridWidth \<and>
   fst (main narrow_env) = 1 \<and> Tick \<notin> set (trace (snd (main narrow_env))) \<and>
   inputTexture (snd (main narrow_env)) = no_texture \<and>
   last (trace (snd (main narrow_env))) = Stderr ''Expected 400 x 400 x 3, got 399 x 400 x 3''"
proof -
  have i: "image_file narrow_env = Some narrow_image"
    and g: "glfwInit_ok narrow_env"
    by (simp_all add: narrow_env_def good_env_def)
  have d: "stb_w narrow_image = 399" "stb_h narrow_image = 400" "stb_n narrow_image = 3"
    by (simp_all add: narrow_image_def)
  have w: "stb_w narrow_image \<noteq> gridWidth"
    by (simp add: d gridWidth_def)
  have bad: "image_file narrow_env = None \<or>
      (\<exists>im. image_file narrow_env = Some im \<and>
            (stb_w im \<noteq> gridWidth \<or> stb_h im \<noteq> gridHeight \<or> stb_n im \<noteq> 3))"
    using i w by simp
  have s: "show_int 399 = ''399''" "show_int 400 = ''400''" "show_int 3 = ''3''"
    by code_simp+
  show ?thesis
    using bad_image_rejected [OF bad] i g w by (simp add: d s)
qed

subsection \<open>Loading the initial image\<close>

lemma unorm8_range: "0 \<le> unorm8 c \<and> unorm8 c \<le> 1"
proof -
  define n where "n = unat c"
  have "unat c < 2 ^ 8"
    using unsigned_less [of c] by simp
  then have "n \<le> 255" by (simp add: n_def)
  then have "0 \<le> real n / 255 \<and> real n / 255 \<le> 1" by simp
  then show ?thesis unfolding unorm8_def n_def .
qed

lemma flip_vertically_nth:
  assumes "stb_w im = 400" and "stb_h im = 400" and "stb_n im = 3"
    and "length (stb_data im) = 480000"
    and "X < 400" and "Y < 400" and "ch < 3"
  shows "stb_data (flip_vertically im) ! (Y * 1200 + 3 * X + ch) =
         stb_data im ! ((399 - Y) * 1200 + 3 * X + ch)"
proof -
  let ?i = "Y * 1200 + 3 * X + ch"
  have small: "3 * X + ch < 1200" using assms(5,7) by simp
  have i: "?i < 480000" using assms(6) small by simp
  have d: "?i div 1200 = Y" using small by simp
  have m: "?i mod 1200 = 3 * X + ch" using small by (simp add: add.assoc)
  have "stb_data (flip_vertically im) ! ?i =
      stb_data im ! ((400 - 1 - ?i div 1200) * 1200 + ?i mod 1200)"
    using i by (simp add: flip_vertically_def assms(1-4) Let_def del: mult_Suc_right)
  then show ?thesis unfolding d m by (simp add: add.assoc)
qed

lemma initialise_Inr:
  assumes "initialise e = Inr st" and "image_file e = Some im"
  shows "stb_w im = gridWidth \<and> stb_h im = gridHeight \<and> stb_n im = 3 \<and>
         inputTexture st =
           glTexImage2D_rgb gridWidth gridHeight (stb_data (flip_vertically im)) \<and>
         outputTexture st = glTexImage2D_null gridWidth gridHeight (undefined_texels e) \<and>
         computeProgram st = built_program e \<and>
         trace st = startup_events e"
proof (cases "glfwInit_ok e")
  case False
  with assms(1) show ?thesis by (simp add: initialise_no_glfw)
next
  case True
  show ?thesis
  proof (cases "stb_w im \<noteq> gridWidth \<or> stb_h im \<noteq> gridHeight \<or> stb_n im \<noteq> 3")
    case bad: True
    with assms(1) show ?thesis
      by (simp add: initialise_wrong_size [OF True assms(2) bad])
  next
    case False
    then have ok: "stb_w im = gridWidth" "stb_h im = gridHeight" "stb_n im = 3"
      by simp_all
    with assms(1) show ?thesis
      by (auto simp: initialise_ok [OF True assms(2) ok])
  qed
qed

lemma texel_of_upload:
  assumes "0 \<le> x" and "x < 400" and "0 \<le> y" and "y < 400"
  shows "imageLoad (glTexImage2D_rgb 400 400 data) (x, y) =
     Vec4 (unorm8 (data ! (nat y * 1200 + 3 * nat x + 0)))
          (unorm8 (data ! (nat y * 1200 + 3 * nat x + 1)))
          (unorm8 (data ! (nat y * 1200 + 3 * nat x + 2))) 1"
  using assms by (simp add: imageLoad_def in_bounds_def glTexImage2D_rgb_def Let_def)

text \<open>
  C8: the loader applies no threshold and flips the rows. For a decoded file of the right
  size, each cell of the current buffer holds the three bytes of the file's pixel in the
  same column and in the row mirrored top to bottom, each byte \<open>c\<close> as the number
  \<open>c / 255\<close> between 0 and 1 and nothing else done to it, with an alpha of 1.
\<close>

theorem initial_image_loaded_as_is:
  assumes "initialise e = Inr st" and "image_file e = Some im"
    and "length (stb_data im) = nat (stb_w im * stb_h im * stb_n im)"
    and "in_bounds (inputTexture st) (x, y)"
  shows "imageLoad (inputTexture st) (x, y) =
           Vec4 (unorm8 (file_channel im x (gridHeight - 1 - y) 0))
                (unorm8 (file_channel im x (gridHeight - 1 - y) 1))
                (unorm8 (file_channel im x (gridHeight - 1 - y) 2)) 1 \<and>
         unorm8 c = real (unat c) / 255 \<and> 0 \<le> unorm8 c \<and> unorm8 c \<le> 1"
proof -
  from initialise_Inr [OF assms(1,2)] have
    w: "stb_w im = 400" and h: "stb_h im = 400" and n: "stb_n im = 3"
    and tex: "inputTexture st = glTexImage2D_rgb 400 400 (stb_data (flip_vertically im))"
    by (simp_all add: gridWidth_def gridHeight_def)
  have len: "length (stb_data im) = 480000"
    using assms(3) by (simp add: w h n)
  from assms(4) have xy: "0 \<le> x" "x < 400" "0 \<le> y" "y < 400"
    by (simp_all add: tex in_bounds_def glTexImage2D_rgb_def Let_def)
  then have X: "nat x < 400" and Y: "nat y < 400" by simp_all
  have "((gridHeight - 1 - y) * stb_w im + x) * stb_n im =
      int ((399 - nat y) * 1200 + 3 * nat x)"
    unfolding w n gridHeight_def using xy by (simp add: of_nat_diff algebra_simps)
  then have idx: "(399 - nat y) * 1200 + 3 * nat x =
      nat (((gridHeight - 1 - y) * stb_w im + x) * stb_n im)"
    by (simp only: nat_int)
  have ch: "stb_data (flip_vertically im) ! (nat y * 1200 + 3 * nat x + k) =
      file_channel im x (gridHeight - 1 - y) k" if "k < 3" for k
    unfolding file_channel_def idx [symmetric]
    by (rule flip_vertically_nth [OF w h n len X Y that])
  have "imageLoad (inputTexture st) (x, y) =
      Vec4 (unorm8 (file_channel im x (gridHeight - 1 - y) 0))
           (unorm8 (file_channel im x (gridHeight - 1 - y) 1))
           (unorm8 (file_channel im x (gridHeight - 1 - y) 2)) 1"
    unfolding tex texel_of_upload [OF xy] by (simp only: ch) 
  then show ?thesis
    using unorm8_range [of c] by (simp add: unorm8_def)
qed

lemma shaded_channel:
  "file_channel shaded_image 5 392 0 = 196" "file_channel shaded_image 5 392 (Suc 0) = 196"
  "file_channel shaded_image 5 392 2 = 196" "file_channel shaded_image 5 7 0 = 3"
  by (simp_all add: file_channel_def shaded_image_def)

lemma unorm8_196: "unorm8 196 = 196 / 255"
  by (simp add: unorm8_def)

theorem initial_image_loaded_as_is_witness:
  "fst (main good_env) = 0 \<and> image_file good_env = Some shaded_image \<and>
   in_bounds (inputTexture (snd (main good_env))) (5, 7) \<and>
   file_channel shaded_image 5 392 0 = 196 \<and> file_channel shaded_image 5 7 0 = 3 \<and>
   imageLoad (inputTexture (snd (main good_env))) (5, 7) =
     Vec4 (196 / 255) (196 / 255) (196 / 255) 1"
proof -
  have g: "glfwInit_ok good_env" and i: "image_file good_env = Some shaded_image"
    and f: "frames good_env = []"
    by (simp_all add: good_env_def)
  note init = initialise_ok [OF g i shaded_dims(1-3)]
  note m = main_after_initialise [OF init]
  have len: "length (stb_data shaded_image) =
      nat (stb_w shaded_image * stb_h shaded_image * stb_n shaded_image)"
    by (simp add: shaded_image_def)
  have inb: "in_bounds (inputTexture (snd (main good_env))) (5, 7)"
    by (simp add: m f in_bounds_def glTexImage2D_rgb_def Let_def gridWidth_def gridHeight_def)
  have st: "initialise good_env = Inr (snd (main good_env))"
    by (simp add: m f init)
  have "imageLoad (inputTexture (snd (main good_env))) (5, 7) =
      Vec4 (196 / 255) (196 / 255) (196 / 255) 1"
    using initial_image_loaded_as_is [OF st i len inb]
    by (simp add: gridHeight_def shaded_channel unorm8_196)
  then show ?thesis
    using i inb by (simp add: m shaded_channel)
qed

subsection \<open>The state that main hands to the loop\<close>

text \<open>
  When the compute program was built, \<open>main\<close> enters the loop in a state that is ready
  for ticks, and the loop keeps it so.
\<close>

lemma initialise_grid_ready:
  assumes "initialise e = Inr st" and "usable (built_program e)"
  shows "grid_ready st"
proof (cases "image_file e")
  case None
  show ?thesis
  proof (cases "glfwInit_ok e")
    case True
    with assms(1) show ?thesis by (simp add: initialise_no_image [OF True None])
  next
    case False
    with assms(1) show ?thesis by (simp add: initialise_no_glfw)
  qed
next
  case (Some im)
  from initialise_Inr [OF assms(1) Some] assms(2) show ?thesis
    by (simp add: grid_ready_def glTexImage2D_rgb_def glTexImage2D_null_def Let_def)
qed

lemma callback_grid_ready: "grid_ready st \<Longrightarrow> grid_ready (key_callback key action st)"
proof -
  assume r: "grid_ready st"
  have t: "grid_ready (simulationTick st)" by (rule tick_ready [OF r])
  show ?thesis
    using r t
    by (cases key; cases action) (simp_all add: key_callback_def Let_def grid_ready_def)
qed

lemma poll_grid_ready: "grid_ready st \<Longrightarrow> grid_ready (glfwPollEvents evs st)"
proof (induction evs arbitrary: st)
  case Nil
  then show ?case by simp
next
  case (Cons ev evs)
  obtain key action where ev: "ev = (key, action)" by (cases ev)
  show ?case
    unfolding ev glfwPollEvents.simps
    by (rule Cons.IH) (rule callback_grid_ready [OF Cons.prems])
qed

lemma loop_grid_ready: "grid_ready st \<Longrightarrow> grid_ready (main_loop frs st)"
proof (induction frs arbitrary: st)
  case Nil
  then show ?case by simp
next
  case (Cons evs frs)
  have "grid_ready (if simulationIsRunning st then simulationTick st else st)"
    using Cons.prems by (simp add: tick_ready)
  then have "grid_ready
      (glfwPollEvents evs (if simulationIsRunning st then simulationTick st else st))"
    by (rule poll_grid_ready)
  then show ?case
    unfolding main_loop.simps by (rule Cons.IH)
qed

lemma good_env_ready: "grid_ready (snd (main good_env))"
proof -
  have g: "glfwInit_ok good_env" and i: "image_file good_env = Some shaded_image"
    by (simp_all add: good_env_def)
  note init = initialise_ok [OF g i shaded_dims(1-3)]
  have u: "usable (built_program good_env)"
    by (simp add: built_program_def loadCompileShader_def createLinkProgram_def good_env_def
        usable_def)
  show ?thesis
    unfolding main_after_initialise [OF init] snd_conv
    by (rule loop_grid_ready [OF initialise_grid_ready [OF init u]])
qed

end
